theory Spec2Isabelle
  imports Complex_Main
begin

section \<open>Data model of \<open>src/index.ts\<close>\<close>

text \<open>
  The two tools the server registers. \<open>logToolCall\<close> takes the tool as a string, but casts
  it to a key of \<open>toolCallStats\<close> and is only ever called with these two literals.
\<close>

datatype tool_name = resolve_library_id | get_library_docs

text \<open>The module-level counter object \<open>toolCallStats\<close>, one field per key.\<close>

record tool_stats =
  resolve_library_id_count :: nat
  get_library_docs_count :: nat

text \<open>
  One element of \<open>callHistory\<close>. \<open>timestamp\<close> is the ISO rendering of the clock at the
  moment of the call; optional fields are \<open>undefined\<close> when \<open>None\<close>. A string is the
  list of its code units, which is what \<open>substring\<close>, \<open>startsWith\<close> and the patterns
  below count.
\<close>

record logEntry =
  timestamp :: string
  tool :: tool_name
  query :: "string option"
  libraryId :: "string option"
  clientIp :: "string option"
  success :: bool

text \<open>The interface \<open>SessionState\<close>. Times are \<open>Date.now()\<close> readings: integer milliseconds.\<close>

record SessionState =
  resolveLibraryIdCalled :: bool
  getLibraryDocsCalled :: bool
  lastResolveLibraryIdTime :: "int option"
  sessionId :: "string option"

text \<open>
  What the process writes with \<open>console.error\<close>, without the colour codes and the
  locale-formatted date: the \<open>[STATS]\<close> line with its three counters, the \<open>[CALL]\<close>
  line with the tool and its status, and the watchdog's \<open>[WARNING]\<close> line with the
  session identifier.
\<close>

datatype console_line =
  STATS nat nat nat
| CALL tool_name bool
| WARNING string

text \<open>
  The module-level mutable state. Session objects are JavaScript objects shared by
  reference between the \<open>sessionStates\<close> map and the closures of every server instance
  created for that key, so they live in an explicit store: \<open>objects\<close> maps a reference to
  the object, \<open>nextRef\<close> is the next unused reference, and \<open>sessionStates\<close> maps an
  identifier to a reference. Deleting a key from the map leaves the object reachable
  from the closures that captured it.
\<close>

record world =
  totalCallCount :: nat
  toolCallStats :: tool_stats
  callHistory :: "logEntry list"
  sessionStates :: "string \<rightharpoonup> nat"
  objects :: "nat \<Rightarrow> SessionState"
  nextRef :: nat
  console :: "console_line list"

definition fresh_session :: SessionState where
  "fresh_session =
     \<lparr>resolveLibraryIdCalled = False, getLibraryDocsCalled = False,
      lastResolveLibraryIdTime = None, sessionId = None\<rparr>"

definition initial_world :: world where
  "initial_world =
     \<lparr>totalCallCount = 0,
      toolCallStats = \<lparr>resolve_library_id_count = 0, get_library_docs_count = 0\<rparr>,
      callHistory = [],
      sessionStates = Map.empty,
      objects = (\<lambda>_. fresh_session),
      nextRef = 0,
      console = []\<rparr>"

definition DEFAULT_MINIMUM_TOKENS :: real where
  "DEFAULT_MINIMUM_TOKENS = 10000"

section \<open>Session store\<close>

text \<open>\<open>getSessionState\<close>: look the identifier up, creating a zero-valued object when absent.\<close>

definition getSessionState :: "string \<Rightarrow> world \<Rightarrow> nat \<times> world" where
  "getSessionState identifier w =
     (case sessionStates w identifier of
        Some r \<Rightarrow> (r, w)
      | None \<Rightarrow>
          (nextRef w,
           w\<lparr>objects := (objects w)(nextRef w := fresh_session),
             nextRef := Suc (nextRef w),
             sessionStates := (sessionStates w)(identifier \<mapsto> nextRef w)\<rparr>))"

section \<open>Call telemetry\<close>

text \<open>\<open>xs.slice(-n)\<close>: the last \<open>n\<close> elements, all of them when there are fewer.\<close>

definition slice_last :: "nat \<Rightarrow> 'a list \<Rightarrow> 'a list" where
  "slice_last n xs = drop (length xs - n) xs"

text \<open>
  \<open>clientIp ? clientIp.substring(0, 8) + '...' : undefined\<close>: an absent or empty address
  is falsy.
\<close>

definition maskIp :: "string option \<Rightarrow> string option" where
  "maskIp ip =
     (case ip of
        None \<Rightarrow> None
      | Some a \<Rightarrow> if a = [] then None else Some (take 8 a @ ''...''))"

definition bump :: "tool_name \<Rightarrow> tool_stats \<Rightarrow> tool_stats" where
  "bump t s =
     (case t of
        resolve_library_id \<Rightarrow> s\<lparr>resolve_library_id_count := resolve_library_id_count s + 1\<rparr>
      | get_library_docs \<Rightarrow> s\<lparr>get_library_docs_count := get_library_docs_count s + 1\<rparr>)"

definition mkEntry ::
  "string \<Rightarrow> tool_name \<Rightarrow> string option \<Rightarrow> string option \<Rightarrow> string option \<Rightarrow> bool \<Rightarrow> logEntry" where
  "mkEntry ts t q lib ip ok =
     \<lparr>timestamp = ts, tool = t, query = q, libraryId = lib, clientIp = maskIp ip, success = ok\<rparr>"

text \<open>
  \<open>logToolCall\<close>. The first argument is the clock reading \<open>new Date().toISOString()\<close> taken
  inside the call; the others are the source's parameters in order.
\<close>

definition logToolCall ::
  "string \<Rightarrow> tool_name \<Rightarrow> string option \<Rightarrow> string option \<Rightarrow> string option \<Rightarrow> bool \<Rightarrow>
   world \<Rightarrow> world" where
  "logToolCall ts t q lib ip ok w =
     (let total = totalCallCount w + 1;
          stats = bump t (toolCallStats w);
          pushed = callHistory w @ [mkEntry ts t q lib ip ok];
          hist = (if length pushed > 100 then slice_last 100 pushed else pushed)
      in w\<lparr>totalCallCount := total,
           toolCallStats := stats,
           callHistory := hist,
           console := console w @
             [STATS total (resolve_library_id_count stats) (get_library_docs_count stats),
              CALL t ok]\<rparr>)"

text \<open>A sequence of record operations, each given by its clock reading and arguments.\<close>

record log_args =
  la_ts :: string
  la_tool :: tool_name
  la_query :: "string option"
  la_libraryId :: "string option"
  la_clientIp :: "string option"
  la_success :: bool

definition log_one :: "log_args \<Rightarrow> world \<Rightarrow> world" where
  "log_one a w =
     logToolCall (la_ts a) (la_tool a) (la_query a) (la_libraryId a) (la_clientIp a)
       (la_success a) w"

definition entry_of :: "log_args \<Rightarrow> logEntry" where
  "entry_of a =
     mkEntry (la_ts a) (la_tool a) (la_query a) (la_libraryId a) (la_clientIp a) (la_success a)"

fun log_all :: "log_args list \<Rightarrow> world \<Rightarrow> world" where
  "log_all [] w = w"
| "log_all (a # as) w = log_all as (log_one a w)"

section \<open>Error-message detection\<close>

text \<open>
  \<open>containsErrorMessage\<close> tests twelve literal patterns with the \<open>i\<close> flag. Without the
  \<open>u\<close> flag a character outside ASCII never matches an ASCII letter, so matching a
  lower-case ASCII literal ignoring case is comparing after folding \<open>A\<close>..\<open>Z\<close>.
\<close>

definition lower_ascii :: "char \<Rightarrow> char" where
  "lower_ascii c =
     (let n = (of_char c :: nat) in if 65 \<le> n \<and> n \<le> 90 then char_of (n + 32) else c)"

fun is_prefix_ci :: "string \<Rightarrow> string \<Rightarrow> bool" where
  "is_prefix_ci [] s = True"
| "is_prefix_ci (p # ps) [] = False"
| "is_prefix_ci (p # ps) (c # cs) = (p = lower_ascii c \<and> is_prefix_ci ps cs)"

fun regex_test_ci :: "string \<Rightarrow> string \<Rightarrow> bool" where
  "regex_test_ci p [] = is_prefix_ci p []"
| "regex_test_ci p (c # cs) = (is_prefix_ci p (c # cs) \<or> regex_test_ci p cs)"

definition errorPatterns :: "string list" where
  "errorPatterns =
     [''error'', ''exception'', ''traceback'', ''failed'', ''cannot import'',
      ''module not found'', ''no module named'', ''import error'', ''syntax error'',
      ''runtime error'', ''attribute error'', ''type error'']"

definition containsErrorMessage :: "string \<Rightarrow> bool" where
  "containsErrorMessage q = list_ex (\<lambda>pattern. regex_test_ci pattern q) errorPatterns"

section \<open>Tool results and collaborators\<close>

datatype content_item = TextContent string

record tool_result =
  content :: "content_item list"

definition text_result :: "string \<Rightarrow> tool_result" where
  "text_result s = \<lparr>content = [TextContent s]\<rparr>"

text \<open>
  \<open>SearchResponse\<close> is declared in \<open>lib/types.js\<close>; the handler reads its \<open>results\<close>,
  which it allows to be absent, and its optional \<open>error\<close>. The element type is left open.
\<close>

record 'r SearchResponse =
  results :: "'r list option"
  error :: "string option"

text \<open>
  A JavaScript number: the finite doubles are a subset of the reals and are compared as
  the reals they denote.
\<close>

datatype jsnumber = NaN | NegInfinity | Finite real | PosInfinity

fun js_lt :: "jsnumber \<Rightarrow> jsnumber \<Rightarrow> bool" where
  "js_lt NaN _ = False"
| "js_lt _ NaN = False"
| "js_lt _ NegInfinity = False"
| "js_lt NegInfinity _ = True"
| "js_lt PosInfinity _ = False"
| "js_lt (Finite a) PosInfinity = True"
| "js_lt (Finite a) (Finite b) = (a < b)"

fun js_le :: "jsnumber \<Rightarrow> jsnumber \<Rightarrow> bool" where
  "js_le NaN _ = False"
| "js_le _ NaN = False"
| "js_le NegInfinity _ = True"
| "js_le _ NegInfinity = False"
| "js_le _ PosInfinity = True"
| "js_le PosInfinity _ = False"
| "js_le (Finite a) (Finite b) = (a \<le> b)"

text \<open>
  The collaborators imported from \<open>lib/api.js\<close> and \<open>lib/utils.js\<close>, as functions of
  their arguments: \<open>searchLibraries(libraryName, clientIp)\<close>,
  \<open>fetchLibraryDocumentation(id, {tokens, topic}, clientIp)\<close> (a string or \<open>null\<close>) and
  \<open>formatSearchResults(searchResponse)\<close>.
\<close>

record 'r backend =
  searchLibraries :: "string \<Rightarrow> string option \<Rightarrow> 'r SearchResponse"
  fetchLibraryDocumentation :: "string \<Rightarrow> jsnumber \<Rightarrow> string \<Rightarrow> string option \<Rightarrow> string option"
  formatSearchResults :: "'r SearchResponse \<Rightarrow> string"

text \<open>
  The clock readings of one tool call: \<open>Date.now()\<close> in the resolve handler, and
  \<open>new Date().toISOString()\<close> in the first and in the second \<open>logToolCall\<close>.
\<close>

record clock =
  now_ms :: int
  iso_first :: string
  iso_second :: string

section \<open>The \<open>tokens\<close> schema\<close>

datatype json_value = JUndefined | JString string | JNumber jsnumber | JOther

datatype zod_error = ZodError

text \<open>\<open>(val) => (typeof val === "string" ? Number(val) : val)\<close>, with \<open>Number\<close> a parameter.\<close>

definition tokens_preprocess :: "(string \<Rightarrow> jsnumber) \<Rightarrow> json_value \<Rightarrow> json_value" where
  "tokens_preprocess Number val = (case val of JString s \<Rightarrow> JNumber (Number s) | _ \<Rightarrow> val)"

text \<open>\<open>z.number()\<close> accepts a value of type number other than \<open>NaN\<close>.\<close>

definition z_number :: "json_value \<Rightarrow> zod_error + jsnumber" where
  "z_number v =
     (case v of
        JNumber n \<Rightarrow> if n = NaN then Inl ZodError else Inr n
      | _ \<Rightarrow> Inl ZodError)"

text \<open>\<open>(val) => (val < DEFAULT_MINIMUM_TOKENS ? DEFAULT_MINIMUM_TOKENS : val)\<close>\<close>

definition tokens_transform :: "jsnumber \<Rightarrow> jsnumber" where
  "tokens_transform val =
     (if js_lt val (Finite DEFAULT_MINIMUM_TOKENS) then Finite DEFAULT_MINIMUM_TOKENS else val)"

text \<open>The whole schema: \<open>.optional()\<close> is outermost and lets \<open>undefined\<close> through untouched.\<close>

definition tokens_schema :: "(string \<Rightarrow> jsnumber) \<Rightarrow> json_value \<Rightarrow> zod_error + jsnumber option" where
  "tokens_schema Number v =
     (case v of
        JUndefined \<Rightarrow> Inr None
      | _ \<Rightarrow>
          (case z_number (tokens_preprocess Number v) of
             Inl e \<Rightarrow> Inl e
           | Inr n \<Rightarrow> Inr (Some (tokens_transform n))))"

section \<open>Server instances and tool handlers\<close>

text \<open>
  What the closures of one \<open>createServerInstance\<close> call capture: the identifier, the
  session object (by reference) and the client address.
\<close>

record serverInstance =
  sessionIdentifier :: string
  sessionRef :: nat
  instClientIp :: "string option"

text \<open>\<open>clientIp || 'default'\<close>: an absent or empty address selects the default key.\<close>

definition identifier_of :: "string option \<Rightarrow> string" where
  "identifier_of ip = (case ip of None \<Rightarrow> ''default'' | Some a \<Rightarrow> if a = [] then ''default'' else a)"

definition createServerInstance :: "string option \<Rightarrow> world \<Rightarrow> serverInstance \<times> world" where
  "createServerInstance ip w =
     (let ident = identifier_of ip;
          (r, w') = getSessionState ident w
      in (\<lparr>sessionIdentifier = ident, sessionRef = r, instClientIp = ip\<rparr>, w'))"

definition update_session :: "nat \<Rightarrow> (SessionState \<Rightarrow> SessionState) \<Rightarrow> world \<Rightarrow> world" where
  "update_session r f w = w\<lparr>objects := (objects w)(r := f (objects w r))\<rparr>"

definition ERROR_ANALYSIS_MESSAGE :: string where
  "ERROR_ANALYSIS_MESSAGE =
     ''Sorry, I can't search for the relevant library docs. No matching libraries found for the error analysis. Please try with a more specific library name or check the error message for library names.''"

definition SEARCH_FAILED_MESSAGE :: string where
  "SEARCH_FAILED_MESSAGE = ''Failed to retrieve library documentation data from Context7''"

definition AVAILABLE_LIBRARIES_HEADER :: string where
  "AVAILABLE_LIBRARIES_HEADER =
     ''Available Libraries (top matches):\<newline>\<newline>Each result includes:\<newline>- Library ID: Context7-compatible identifier (format: /org/project)\<newline>- Name: Library or package name\<newline>- Description: Short summary\<newline>- Code Snippets: Number of available code examples\<newline>- Trust Score: Authority indicator\<newline>- Versions: List of versions if available. Use one of those versions if and only if the user explicitly provides a version in their query.\<newline>\<newline>For best results, select libraries based on name match, trust score, snippet coverage, and relevance to your use case.\<newline>\<newline>----------\<newline>\<newline>''"

definition SEQUENCING_GUIDANCE :: string where
  "SEQUENCING_GUIDANCE =
     ''Sorry, I can't search for the relevant library docs. You must call 'resolve-library-id' first to get a valid Context7-compatible library ID, unless you provide an explicit library ID in the format '/org/project'.''"

definition DOCS_NOT_FOUND_MESSAGE :: string where
  "DOCS_NOT_FOUND_MESSAGE =
     ''Documentation not found or not finalized for this library. This might have happened because you used an invalid Context7-compatible library ID. To get a valid Context7-compatible library ID, use the 'resolve-library-id' with the package name you wish to retrieve documentation for.''"

subsection \<open>\<open>resolve-library-id\<close>\<close>

text \<open>The handler up to its \<open>await\<close>: the session update and the first log entry.\<close>

definition resolve_before_search :: "serverInstance \<Rightarrow> clock \<Rightarrow> string \<Rightarrow> world \<Rightarrow> world" where
  "resolve_before_search inst clk libraryName w =
     (let w1 = update_session (sessionRef inst)
                 (\<lambda>s. s\<lparr>resolveLibraryIdCalled := True,
                        getLibraryDocsCalled := False,
                        lastResolveLibraryIdTime := Some (now_ms clk)\<rparr>) w
      in logToolCall (iso_first clk) resolve_library_id (Some libraryName) None
           (instClientIp inst) True w1)"

text \<open>\<open>!searchResponse.results || searchResponse.results.length === 0\<close>\<close>

definition no_results :: "'r SearchResponse \<Rightarrow> bool" where
  "no_results resp = (case results resp of None \<Rightarrow> True | Some rs \<Rightarrow> length rs = 0)"

definition resolve_error_text :: "string \<Rightarrow> 'r SearchResponse \<Rightarrow> string" where
  "resolve_error_text libraryName resp =
     (if containsErrorMessage libraryName then ERROR_ANALYSIS_MESSAGE
      else (case error resp of
              None \<Rightarrow> SEARCH_FAILED_MESSAGE
            | Some e \<Rightarrow> if e = [] then SEARCH_FAILED_MESSAGE else e))"

text \<open>The handler from the search response on.\<close>

definition resolve_after_search ::
  "('r SearchResponse \<Rightarrow> string) \<Rightarrow> serverInstance \<Rightarrow> clock \<Rightarrow> string \<Rightarrow> 'r SearchResponse \<Rightarrow>
   world \<Rightarrow> tool_result \<times> world" where
  "resolve_after_search format inst clk libraryName searchResponse w =
     (if no_results searchResponse
      then (text_result (resolve_error_text libraryName searchResponse),
            logToolCall (iso_second clk) resolve_library_id (Some libraryName) None
              (instClientIp inst) False w)
      else (text_result (AVAILABLE_LIBRARIES_HEADER @ format searchResponse), w))"

definition resolve_library_id_handler ::
  "'r backend \<Rightarrow> serverInstance \<Rightarrow> clock \<Rightarrow> string \<Rightarrow> world \<Rightarrow> tool_result \<times> world" where
  "resolve_library_id_handler be inst clk libraryName w =
     resolve_after_search (formatSearchResults be) inst clk libraryName
       (searchLibraries be libraryName (instClientIp inst))
       (resolve_before_search inst clk libraryName w)"

subsection \<open>\<open>get-library-docs\<close>\<close>

definition startsWith_slash :: "string \<Rightarrow> bool" where
  "startsWith_slash s = (case s of [] \<Rightarrow> False | c # _ \<Rightarrow> c = CHR ''/'')"

text \<open>
  The handler either returns at once or suspends on the backend with the arguments of
  \<open>fetchLibraryDocumentation\<close>.
\<close>

datatype docs_step =
  Return tool_result
| AwaitFetch string jsnumber string "string option"

text \<open>
  The parameter defaults \<open>tokens = DEFAULT_MINIMUM_TOKENS\<close> and \<open>topic = ""\<close>, and the
  logged query \<open>topic || 'general'\<close>.
\<close>

definition tokens_or_default :: "jsnumber option \<Rightarrow> jsnumber" where
  "tokens_or_default tokens_arg =
     (case tokens_arg of None \<Rightarrow> Finite DEFAULT_MINIMUM_TOKENS | Some n \<Rightarrow> n)"

definition topic_or_default :: "string option \<Rightarrow> string" where
  "topic_or_default topic_arg = (case topic_arg of None \<Rightarrow> [] | Some t \<Rightarrow> t)"

definition topic_or_general :: "string \<Rightarrow> string" where
  "topic_or_general topic = (if topic = [] then ''general'' else topic)"

text \<open>The handler up to its \<open>await\<close>.\<close>

definition docs_before_fetch ::
  "serverInstance \<Rightarrow> clock \<Rightarrow> string \<Rightarrow> jsnumber option \<Rightarrow> string option \<Rightarrow> world \<Rightarrow>
   docs_step \<times> world" where
  "docs_before_fetch inst clk context7CompatibleLibraryID tokens_arg topic_arg w =
     (let tokens = tokens_or_default tokens_arg;
          topic = topic_or_default topic_arg
      in if \<not> resolveLibraryIdCalled (objects w (sessionRef inst)) \<and>
            \<not> startsWith_slash context7CompatibleLibraryID
         then (Return (text_result SEQUENCING_GUIDANCE), w)
         else
           (let w1 = update_session (sessionRef inst) (\<lambda>s. s\<lparr>getLibraryDocsCalled := True\<rparr>) w;
                w2 = logToolCall (iso_first clk) get_library_docs
                       (Some (topic_or_general topic))
                       (Some context7CompatibleLibraryID) (instClientIp inst) True w1
            in (AwaitFetch context7CompatibleLibraryID tokens topic (instClientIp inst), w2)))"

text \<open>\<open>!fetchDocsResponse\<close>: \<open>null\<close> and the empty string are falsy.\<close>

definition falsy_docs :: "string option \<Rightarrow> bool" where
  "falsy_docs resp = (case resp of None \<Rightarrow> True | Some t \<Rightarrow> t = [])"

text \<open>The handler from the fetch response on.\<close>

definition docs_after_fetch ::
  "serverInstance \<Rightarrow> clock \<Rightarrow> string \<Rightarrow> string \<Rightarrow> string option \<Rightarrow> world \<Rightarrow> tool_result \<times> world" where
  "docs_after_fetch inst clk context7CompatibleLibraryID topic fetchDocsResponse w =
     (if falsy_docs fetchDocsResponse
      then (text_result DOCS_NOT_FOUND_MESSAGE,
            logToolCall (iso_second clk) get_library_docs
              (Some (topic_or_general topic))
              (Some context7CompatibleLibraryID) (instClientIp inst) False w)
      else (text_result (case fetchDocsResponse of None \<Rightarrow> [] | Some t \<Rightarrow> t), w))"

definition get_library_docs_handler ::
  "'r backend \<Rightarrow> serverInstance \<Rightarrow> clock \<Rightarrow> string \<Rightarrow> jsnumber option \<Rightarrow> string option \<Rightarrow>
   world \<Rightarrow> tool_result \<times> world" where
  "get_library_docs_handler be inst clk context7CompatibleLibraryID tokens_arg topic_arg w =
     (case docs_before_fetch inst clk context7CompatibleLibraryID tokens_arg topic_arg w of
        (Return res, w') \<Rightarrow> (res, w')
      | (AwaitFetch lib tokens topic ip, w') \<Rightarrow>
          docs_after_fetch inst clk context7CompatibleLibraryID topic
            (fetchLibraryDocumentation be lib tokens topic ip) w')"

subsection \<open>The \<open>server.connect\<close> override: watchdog and close handler\<close>

text \<open>The period of the interval and the age above which a pending session is reset.\<close>

definition T_check :: int where
  "T_check = 30000"

definition T_expire :: int where
  "T_expire = 75000"

text \<open>
  One firing of the \<open>setInterval\<close> callback at clock reading \<open>now\<close>.
  \<open>lastResolveLibraryIdTime || 0\<close> is 0 for an absent time (and for the time 0).
\<close>

definition watchdog_tick :: "serverInstance \<Rightarrow> int \<Rightarrow> world \<Rightarrow> world" where
  "watchdog_tick inst now w =
     (let s = objects w (sessionRef inst)
      in if resolveLibraryIdCalled s \<and> \<not> getLibraryDocsCalled s
         then
           (let timeSinceResolve =
                  now - (case lastResolveLibraryIdTime s of None \<Rightarrow> 0 | Some t \<Rightarrow> t)
            in if timeSinceResolve > T_expire
               then update_session (sessionRef inst)
                      (\<lambda>s. s\<lparr>resolveLibraryIdCalled := False, getLibraryDocsCalled := False\<rparr>)
                      (w\<lparr>console := console w @ [WARNING (sessionIdentifier inst)]\<rparr>)
               else w)
         else w)"

text \<open>
  The handler assigned to \<open>transport.onclose\<close>: the interval is cleared and the key
  leaves \<open>sessionStates\<close>. It runs when the transport raises its close event; nothing in
  \<open>index.ts\<close> closes a transport or calls the handler.
\<close>

definition transport_onclose :: "serverInstance \<Rightarrow> world \<Rightarrow> world" where
  "transport_onclose inst w = w\<lparr>sessionStates := (sessionStates w)(sessionIdentifier inst := None)\<rparr>"

section \<open>HTTP transport\<close>

text \<open>
  What \<open>getClientIp\<close> reads of a request: the \<open>x-forwarded-for\<close> header (Node joins
  repeated ones into one string) and the socket's remote address.
\<close>

record http_request =
  forwardedFor :: "string option"
  remoteAddress :: "string option"

text \<open>The characters \<open>trim\<close> removes, among those a header value can hold.\<close>

definition js_whitespace :: "char \<Rightarrow> bool" where
  "js_whitespace c = ((of_char c :: nat) \<in> {9, 10, 11, 12, 13, 32, 160})"

definition trim :: "string \<Rightarrow> string" where
  "trim s = rev (dropWhile js_whitespace (rev (dropWhile js_whitespace s)))"

definition getClientIp :: "http_request \<Rightarrow> string option" where
  "getClientIp req =
     (case forwardedFor req of
        Some ips \<Rightarrow>
          if ips \<noteq> [] then Some (trim (takeWhile (\<lambda>c. c \<noteq> CHR '','') ips))
          else (case remoteAddress req of
                  None \<Rightarrow> None
                | Some a \<Rightarrow> if a = [] then None else Some a)
      | None \<Rightarrow>
          (case remoteAddress req of
             None \<Rightarrow> None
           | Some a \<Rightarrow> if a = [] then None else Some a))"

text \<open>A \<open>tools/call\<close> message, with its arguments as the schemas deliver them.\<close>

datatype tool_call =
  ResolveCall string
| DocsCall string "jsnumber option" "string option"

definition call_tool ::
  "'r backend \<Rightarrow> serverInstance \<Rightarrow> clock \<Rightarrow> tool_call \<Rightarrow> world \<Rightarrow> tool_result \<times> world" where
  "call_tool be inst clk c w =
     (case c of
        ResolveCall libraryName \<Rightarrow> resolve_library_id_handler be inst clk libraryName w
      | DocsCall lib tokens_arg topic_arg \<Rightarrow>
          get_library_docs_handler be inst clk lib tokens_arg topic_arg w)"

text \<open>
  \<open>POST /mcp\<close>: a new server instance for the request's client address, connected to a
  new transport, handles the message. The instance is returned so that the close of its
  transport can be applied later.
\<close>

definition post_mcp ::
  "'r backend \<Rightarrow> http_request \<Rightarrow> clock \<Rightarrow> tool_call \<Rightarrow> world \<Rightarrow>
   (tool_result \<times> serverInstance) \<times> world" where
  "post_mcp be req clk c w =
     (let (requestServer, w1) = createServerInstance (getClientIp req) w;
          (res, w2) = call_tool be requestServer clk c w1
      in ((res, requestServer), w2))"

subsection \<open>Listening with port fallback\<close>

text \<open>
  What \<open>httpServer.listen(port)\<close> leads to: the \<open>listening\<close> callback, or an \<open>error\<close>
  event carrying \<open>err.code\<close>.
\<close>

datatype listen_result = Listening | ListenError "string option"

datatype server_outcome = Running int | Exit nat

text \<open>
  \<open>startServer\<close>, with the environment's answer for each port as a function, and the
  captured \<open>initialPort\<close> as a parameter. The result is the list of ports \<open>listen\<close> was
  called with and how the start ended: \<open>actualPort\<close>, or the status of \<open>process.exit\<close>.
\<close>

function startServer ::
  "(int \<Rightarrow> listen_result) \<Rightarrow> int \<Rightarrow> int \<Rightarrow> int \<Rightarrow> int list \<times> server_outcome" where
  "startServer listen initialPort port maxAttempts =
     (case listen port of
        Listening \<Rightarrow> ([port], Running port)
      | ListenError code \<Rightarrow>
          if code = Some ''EADDRINUSE'' \<and> port < initialPort + maxAttempts
          then (let (tried, outcome) = startServer listen initialPort (port + 1) maxAttempts
                in (port # tried, outcome))
          else ([port], Exit 1))"
  by pat_completeness auto
termination
  by (relation "measure (\<lambda>(listen, initialPort, port, maxAttempts).
                  nat (initialPort + maxAttempts - port))") auto

text \<open>\<open>const initialPort = CLI_PORT ?? 3000\<close>\<close>

definition initial_port :: "int option \<Rightarrow> int" where
  "initial_port CLI_PORT = (case CLI_PORT of None \<Rightarrow> 3000 | Some p \<Rightarrow> p)"

text \<open>\<open>startServer(initialPort)\<close>, with the default \<open>maxAttempts = 10\<close>.\<close>

definition start_http :: "(int \<Rightarrow> listen_result) \<Rightarrow> int option \<Rightarrow> int list \<times> server_outcome" where
  "start_http listen CLI_PORT =
     startServer listen (initial_port CLI_PORT) (initial_port CLI_PORT) 10"

section \<open>Sequences of calls and concrete scenarios\<close>

text \<open>
  A sequence of \<open>get-library-docs\<close> calls through one server instance, each with its own
  arguments, clock readings and backend behaviour, run one after the other.
\<close>

record 'r docs_call =
  dc_backend :: "'r backend"
  dc_clock :: clock
  dc_libraryId :: string
  dc_tokens :: "jsnumber option"
  dc_topic :: "string option"

fun run_docs_calls :: "serverInstance \<Rightarrow> 'r docs_call list \<Rightarrow> world \<Rightarrow> world" where
  "run_docs_calls inst [] w = w"
| "run_docs_calls inst (c # cs) w =
     run_docs_calls inst cs
       (snd (get_library_docs_handler (dc_backend c) inst (dc_clock c) (dc_libraryId c)
               (dc_tokens c) (dc_topic c) w))"

text \<open>A backend that finds nothing, and one that finds one library and its documentation.\<close>

definition empty_backend :: "unit backend" where
  "empty_backend =
     \<lparr>searchLibraries = (\<lambda>_ _. \<lparr>results = Some [], error = None\<rparr>),
      fetchLibraryDocumentation = (\<lambda>_ _ _ _. None),
      formatSearchResults = (\<lambda>_. [])\<rparr>"

definition full_backend :: "unit backend" where
  "full_backend =
     \<lparr>searchLibraries = (\<lambda>_ _. \<lparr>results = Some [()], error = None\<rparr>),
      fetchLibraryDocumentation = (\<lambda>_ _ _ _. Some ''docs''),
      formatSearchResults = (\<lambda>_. ''- Library ID: /facebook/react'')\<rparr>"

definition clock0 :: clock where
  "clock0 = \<lparr>now_ms = 1000, iso_first = ''1970-01-01T00:00:01.000Z'',
             iso_second = ''1970-01-01T00:00:01.250Z''\<rparr>"

text \<open>The single-pipe server: one instance under the default key, in the initial state.\<close>

definition stdio_instance :: serverInstance where
  "stdio_instance = fst (createServerInstance None initial_world)"

definition stdio_world :: world where
  "stdio_world = snd (createServerInstance None initial_world)"

text \<open>The single-pipe server after one \<open>resolve-library-id\<close> call.\<close>

definition resolved_world :: world where
  "resolved_world =
     snd (resolve_library_id_handler full_backend stdio_instance clock0 ''react'' stdio_world)"

text \<open>Two \<open>get-library-docs\<close> calls: the first finds nothing, the second finds documentation.\<close>

definition two_docs_calls :: "unit docs_call list" where
  "two_docs_calls =
     [\<lparr>dc_backend = empty_backend, dc_clock = clock0, dc_libraryId = ''react'',
       dc_tokens = None, dc_topic = None\<rparr>,
      \<lparr>dc_backend = full_backend, dc_clock = clock0, dc_libraryId = ''react'',
       dc_tokens = Some (Finite 500), dc_topic = Some ''hooks''\<rparr>]"

text \<open>The parts of what \<open>post_mcp\<close> returns.\<close>

definition mcp_result ::
  "'r backend \<Rightarrow> http_request \<Rightarrow> clock \<Rightarrow> tool_call \<Rightarrow> world \<Rightarrow> tool_result" where
  "mcp_result be req clk c w = fst (fst (post_mcp be req clk c w))"

definition mcp_instance ::
  "'r backend \<Rightarrow> http_request \<Rightarrow> clock \<Rightarrow> tool_call \<Rightarrow> world \<Rightarrow> serverInstance" where
  "mcp_instance be req clk c w = snd (fst (post_mcp be req clk c w))"

definition mcp_world ::
  "'r backend \<Rightarrow> http_request \<Rightarrow> clock \<Rightarrow> tool_call \<Rightarrow> world \<Rightarrow> world" where
  "mcp_world be req clk c w = snd (post_mcp be req clk c w)"

section \<open>Runs of the HTTP server\<close>

text \<open>
  What happens to the state of a running HTTP server, one event at a time: a
  \<open>POST /mcp\<close> request arrives and is handled, which adds a server instance and its
  interval; or the interval of the \<open>k\<close>-th instance created so far fires at some clock
  reading (no interval, no effect). The state is the module state and the instances
  created so far, in order.
\<close>

datatype 'r http_event =
  PostMcp "'r backend" http_request clock tool_call
| WatchdogTick nat int

fun http_step ::
  "'r http_event \<Rightarrow> world \<times> serverInstance list \<Rightarrow> world \<times> serverInstance list" where
  "http_step (PostMcp be req clk c) (w, insts) =
     (mcp_world be req clk c w, insts @ [mcp_instance be req clk c w])"
| "http_step (WatchdogTick k now) (w, insts) =
     (if k < length insts then watchdog_tick (insts ! k) now w else w, insts)"

fun http_run ::
  "'r http_event list \<Rightarrow> world \<times> serverInstance list \<Rightarrow> world \<times> serverInstance list" where
  "http_run [] st = st"
| "http_run (e # es) st = http_run es (http_step e st)"

text \<open>
  The test of the interval callback: the session is pending and its last resolve is more
  than \<open>T_expire\<close> before the clock reading.
\<close>

definition pending_expired :: "SessionState \<Rightarrow> int \<Rightarrow> bool" where
  "pending_expired s now =
     (resolveLibraryIdCalled s \<and> \<not> getLibraryDocsCalled s \<and>
      now - (case lastResolveLibraryIdTime s of None \<Rightarrow> 0 | Some t \<Rightarrow> t) > T_expire)"

text \<open>
  An event resets the session object \<open>r\<close> when it is the firing of an interval whose
  instance holds \<open>r\<close>, and finds it pending and expired. A run has no reset of \<open>r\<close> when
  none of its events resets \<open>r\<close> in the state it happens in.
\<close>

fun resets :: "nat \<Rightarrow> 'r http_event \<Rightarrow> world \<times> serverInstance list \<Rightarrow> bool" where
  "resets r (PostMcp be req clk c) st = False"
| "resets r (WatchdogTick k now) (w, insts) =
     (k < length insts \<and> sessionRef (insts ! k) = r \<and> pending_expired (objects w r) now)"

fun no_reset :: "nat \<Rightarrow> 'r http_event list \<Rightarrow> world \<times> serverInstance list \<Rightarrow> bool" where
  "no_reset r [] st = True"
| "no_reset r (e # es) st = (\<not> resets r e st \<and> no_reset r es (http_step e st))"

text \<open>Every reference in \<open>sessionStates\<close> is one that \<open>getSessionState\<close> has handed out.\<close>

definition refs_bounded :: "world \<Rightarrow> bool" where
  "refs_bounded w = (\<forall>k r. sessionStates w k = Some r \<longrightarrow> r < nextRef w)"

text \<open>
  One HTTP client on a freshly started server: a first \<open>POST /mcp\<close> calling
  \<open>resolve-library-id\<close> at clock reading 1000, whose interval then fires every 30
  seconds, and a second \<open>POST /mcp\<close> from the same address at clock reading 95000.
\<close>

definition client_request :: http_request where
  "client_request = \<lparr>forwardedFor = None, remoteAddress = Some ''10.0.0.7''\<rparr>"

definition first_instance :: serverInstance where
  "first_instance =
     mcp_instance full_backend client_request clock0 (ResolveCall ''react'') initial_world"

definition after_first :: world where
  "after_first =
     mcp_world full_backend client_request clock0 (ResolveCall ''react'') initial_world"

definition three_ticks :: "unit http_event list" where
  "three_ticks = [WatchdogTick 0 31000, WatchdogTick 0 61000, WatchdogTick 0 91000]"

definition after_three_ticks :: world where
  "after_three_ticks = fst (http_run three_ticks (after_first, [first_instance]))"

definition clock1 :: clock where
  "clock1 = \<lparr>now_ms = 95000, iso_first = ''1970-01-01T00:01:35.000Z'',
             iso_second = ''1970-01-01T00:01:35.250Z''\<rparr>"

text \<open>
  One firing of the first interval, 30 seconds after the first request, and another
  client's request.
\<close>

definition other_request :: http_request where
  "other_request = \<lparr>forwardedFor = None, remoteAddress = Some ''10.0.0.8''\<rparr>"

definition quiet_events :: "unit http_event list" where
  "quiet_events =
     [WatchdogTick 0 31000,
      PostMcp empty_backend other_request clock0 (DocsCall ''vue'' None None)]"

text \<open>A request of the same client arriving through a proxy.\<close>

definition proxied_request :: http_request where
  "proxied_request =
     \<lparr>forwardedFor = Some ''10.0.0.7, 192.168.1.1'', remoteAddress = Some ''172.16.0.1''\<rparr>"

text \<open>A string conversion under which no string is a number.\<close>

definition no_string_is_a_number :: "string \<Rightarrow> jsnumber" where
  "no_string_is_a_number s = NaN"

text \<open>
  Three environments for the port fallback: ports 3000 and 3001 taken, every port taken,
  and binding refused for another reason.
\<close>

definition two_ports_taken :: "int \<Rightarrow> listen_result" where
  "two_ports_taken port = (if port < 3002 then ListenError (Some ''EADDRINUSE'') else Listening)"

definition all_ports_taken :: "int \<Rightarrow> listen_result" where
  "all_ports_taken port = ListenError (Some ''EADDRINUSE'')"

definition permission_denied :: "int \<Rightarrow> listen_result" where
  "permission_denied port = ListenError (Some ''EACCES'')"

section \<open>Telemetry: the history is the last 100 records\<close>

lemma slice_last_idem_append:
  "slice_last n (slice_last n xs @ ys) = slice_last n (xs @ ys)"
proof (cases "length xs \<le> n")
  case True
  then show ?thesis by (simp add: slice_last_def)
next
  case False
  then show ?thesis by (simp add: slice_last_def add.commute)
qed

lemma callHistory_logToolCall:
  "callHistory (logToolCall ts t q lib ip ok w) =
     slice_last 100 (callHistory w @ [mkEntry ts t q lib ip ok])"
  by (simp add: logToolCall_def Let_def slice_last_def)

lemma callHistory_log_one:
  "callHistory (log_one a w) = slice_last 100 (callHistory w @ [entry_of a])"
  by (simp add: log_one_def entry_of_def callHistory_logToolCall)

lemma callHistory_log_all:
  "as \<noteq> [] \<Longrightarrow>
   callHistory (log_all as w) = slice_last 100 (callHistory w @ map entry_of as)"
proof (induction as arbitrary: w)
  case Nil
  then show ?case by simp
next
  case (Cons a as)
  show ?case
  proof (cases "as = []")
    case True
    then show ?thesis by (simp add: callHistory_log_one)
  next
    case False
    then have "callHistory (log_all (a # as) w) =
            slice_last 100 (slice_last 100 (callHistory w @ [entry_of a]) @ map entry_of as)"
      using Cons.IH [of "log_one a w"] by (simp add: callHistory_log_one)
    then show ?thesis by (simp add: slice_last_idem_append)
  qed
qed

text \<open>
  C6. Starting from the module's initial state, after any sequence of \<open>logToolCall\<close>
  operations \<open>callHistory\<close> holds at most 100 entries, and it is exactly the last 100
  records of the sequence in arrival order (all of them while there are at most 100); in
  particular, after more than 100 records the oldest \<open>length as - 100\<close> are gone.
\<close>

theorem callHistory_bounded_last_100:
  "length (callHistory (log_all as initial_world)) \<le> 100 \<and>
   length (callHistory (log_all as initial_world)) = min 100 (length as) \<and>
   callHistory (log_all as initial_world) = drop (length as - 100) (map entry_of as)"
proof -
  have h: "callHistory (log_all as initial_world) = slice_last 100 (map entry_of as)"
  proof (cases "as = []")
    case True
    then show ?thesis by (simp add: initial_world_def slice_last_def)
  next
    case False
    then show ?thesis by (simp add: callHistory_log_all initial_world_def)
  qed
  have l: "length (slice_last 100 (map entry_of as)) = min 100 (length as)"
    by (simp add: slice_last_def)
  from l have "length (slice_last 100 (map entry_of as)) \<le> 100"
    by simp
  with l show ?thesis unfolding h by (simp add: slice_last_def)
qed

section \<open>The \<open>tokens\<close> clamp\<close>

lemma tokens_transform_cases:
  "tokens_transform x = (if js_lt x (Finite DEFAULT_MINIMUM_TOKENS) then Finite DEFAULT_MINIMUM_TOKENS else x)"
  by (simp add: tokens_transform_def)

lemma js_lt_floor_irrefl: "\<not> js_lt (Finite DEFAULT_MINIMUM_TOKENS) (Finite DEFAULT_MINIMUM_TOKENS)"
  by simp

lemma js_le_not_lt: "js_le y x \<Longrightarrow> \<not> js_lt x y"
  by (cases x; cases y) auto

lemma js_le_refl_floor: "js_le (Finite DEFAULT_MINIMUM_TOKENS) (Finite DEFAULT_MINIMUM_TOKENS)"
  by simp

lemma js_le_lt_trans_floor:
  "js_le x y \<Longrightarrow> js_lt y (Finite c) \<Longrightarrow> js_lt x (Finite c)"
  by (cases x; cases y) auto

lemma js_not_lt_le: "js_le x y \<Longrightarrow> \<not> js_lt y (Finite c) \<Longrightarrow> js_le (Finite c) y"
  by (cases x; cases y) auto

lemma tokens_schema_Some:
  "tokens_schema Number v = Inr (Some n) \<Longrightarrow> \<exists>x. x \<noteq> NaN \<and> n = tokens_transform x"
  by (auto simp add: tokens_schema_def z_number_def tokens_preprocess_def
      split: json_value.splits if_splits sum.splits)

text \<open>
  C5. The transform of the \<open>tokens\<close> schema is a clamp with floor
  \<open>DEFAULT_MINIMUM_TOKENS\<close>: a number below the floor becomes the floor, a number at or
  above it is unchanged, applying it twice is applying it once, and it is monotone. Every
  number the schema delivers is the clamp of a number other than \<open>NaN\<close>: a number, or a
  string that converts to one, is delivered clamped, and an absent value is delivered
  absent, for which the handler takes the floor itself.
\<close>

theorem tokens_clamp:
  "(\<forall>x. js_lt x (Finite DEFAULT_MINIMUM_TOKENS) \<longrightarrow>
        tokens_transform x = Finite DEFAULT_MINIMUM_TOKENS) \<and>
   (\<forall>x. js_le (Finite DEFAULT_MINIMUM_TOKENS) x \<longrightarrow> tokens_transform x = x) \<and>
   (\<forall>x. tokens_transform (tokens_transform x) = tokens_transform x) \<and>
   (\<forall>x y. js_le x y \<longrightarrow> js_le (tokens_transform x) (tokens_transform y)) \<and>
   (\<forall>Number v n. tokens_schema Number v = Inr (Some n) \<longrightarrow>
        (\<exists>x. x \<noteq> NaN \<and> n = tokens_transform x)) \<and>
   (\<forall>Number x. x \<noteq> NaN \<longrightarrow>
        tokens_schema Number (JNumber x) = Inr (Some (tokens_transform x))) \<and>
   (\<forall>Number s. Number s \<noteq> NaN \<longrightarrow>
        tokens_schema Number (JString s) = Inr (Some (tokens_transform (Number s)))) \<and>
   (\<forall>Number. tokens_schema Number JUndefined = Inr None) \<and>
   tokens_or_default None = Finite DEFAULT_MINIMUM_TOKENS \<and>
   (\<forall>n. tokens_or_default (Some n) = n)"
proof (intro conjI allI impI)
  fix x
  assume "js_lt x (Finite DEFAULT_MINIMUM_TOKENS)"
  then show "tokens_transform x = Finite DEFAULT_MINIMUM_TOKENS"
    by (simp add: tokens_transform_cases)
next
  fix x
  assume "js_le (Finite DEFAULT_MINIMUM_TOKENS) x"
  then show "tokens_transform x = x"
    by (simp add: tokens_transform_cases js_le_not_lt)
next
  fix x
  show "tokens_transform (tokens_transform x) = tokens_transform x"
    using js_lt_floor_irrefl by (simp add: tokens_transform_cases)
next
  fix x y
  assume le: "js_le x y"
  show "js_le (tokens_transform x) (tokens_transform y)"
  proof (cases "js_lt y (Finite DEFAULT_MINIMUM_TOKENS)")
    case True
    with le have "js_lt x (Finite DEFAULT_MINIMUM_TOKENS)"
      by (rule js_le_lt_trans_floor)
    with True show ?thesis
      using js_le_refl_floor by (simp add: tokens_transform_cases)
  next
    case False
    with le have "js_le (Finite DEFAULT_MINIMUM_TOKENS) y"
      by (rule js_not_lt_le)
    with False le show ?thesis
      by (simp add: tokens_transform_cases)
  qed
next
  fix Number v n
  assume "tokens_schema Number v = Inr (Some n)"
  then show "\<exists>x. x \<noteq> NaN \<and> n = tokens_transform x"
    by (rule tokens_schema_Some)
next
  fix Number :: "string \<Rightarrow> jsnumber" and x
  assume "x \<noteq> NaN"
  then show "tokens_schema Number (JNumber x) = Inr (Some (tokens_transform x))"
    by (simp add: tokens_schema_def tokens_preprocess_def z_number_def)
next
  fix Number :: "string \<Rightarrow> jsnumber" and s
  assume "Number s \<noteq> NaN"
  then show "tokens_schema Number (JString s) = Inr (Some (tokens_transform (Number s)))"
    by (simp add: tokens_schema_def tokens_preprocess_def z_number_def)
next
  fix Number :: "string \<Rightarrow> jsnumber"
  show "tokens_schema Number JUndefined = Inr None"
    by (simp add: tokens_schema_def)
next
  show "tokens_or_default None = Finite DEFAULT_MINIMUM_TOKENS"
    by (simp add: tokens_or_default_def)
next
  fix n
  show "tokens_or_default (Some n) = n"
    by (simp add: tokens_or_default_def)
qed

theorem tokens_clamp_witness:
  "js_lt (Finite 500) (Finite DEFAULT_MINIMUM_TOKENS) \<and>
   tokens_transform (Finite 500) = Finite 10000 \<and>
   js_le (Finite DEFAULT_MINIMUM_TOKENS) (Finite 25000.5) \<and>
   tokens_transform (Finite 25000.5) = Finite 25000.5 \<and>
   js_le (Finite 500) (Finite 25000.5) \<and>
   js_le (tokens_transform (Finite 500)) (tokens_transform (Finite 25000.5)) \<and>
   tokens_schema no_string_is_a_number (JNumber (Finite 500)) = Inr (Some (Finite 10000)) \<and>
   tokens_schema no_string_is_a_number (JString ''many'') = Inl ZodError \<and>
   tokens_schema no_string_is_a_number JUndefined = Inr None"
proof -
  have a: "js_lt (Finite 500) (Finite DEFAULT_MINIMUM_TOKENS)"
    and b: "js_le (Finite DEFAULT_MINIMUM_TOKENS) (Finite 25000.5)"
    and c: "js_le (Finite 500) (Finite 25000.5)"
    by (simp_all add: DEFAULT_MINIMUM_TOKENS_def)
  from a tokens_clamp have d: "tokens_transform (Finite 500) = Finite 10000"
    by (simp add: DEFAULT_MINIMUM_TOKENS_def)
  from b tokens_clamp have e: "tokens_transform (Finite 25000.5) = Finite 25000.5"
    by blast
  from c tokens_clamp
  have f: "js_le (tokens_transform (Finite 500)) (tokens_transform (Finite 25000.5))"
    by blast
  have g: "tokens_schema no_string_is_a_number (JNumber (Finite 500)) =
             Inr (Some (Finite 10000))"
    by (simp add: tokens_schema_def tokens_preprocess_def z_number_def d)
  have h: "tokens_schema no_string_is_a_number (JString ''many'') = Inl ZodError"
    by (simp add: tokens_schema_def tokens_preprocess_def z_number_def
        no_string_is_a_number_def)
  have i: "tokens_schema no_string_is_a_number JUndefined = Inr None"
    by (simp add: tokens_schema_def)
  from a b c d e f g h i show ?thesis by simp
qed

section \<open>What one call does to the state\<close>

lemma logToolCall_fields:
  "objects (logToolCall ts t q lib ip ok w) = objects w"
  "sessionStates (logToolCall ts t q lib ip ok w) = sessionStates w"
  "nextRef (logToolCall ts t q lib ip ok w) = nextRef w"
  "totalCallCount (logToolCall ts t q lib ip ok w) = totalCallCount w + 1"
  "toolCallStats (logToolCall ts t q lib ip ok w) = bump t (toolCallStats w)"
  by (simp_all add: logToolCall_def Let_def)

lemma update_session_fields:
  "objects (update_session r f w) r = f (objects w r)"
  "sessionStates (update_session r f w) = sessionStates w"
  "nextRef (update_session r f w) = nextRef w"
  "totalCallCount (update_session r f w) = totalCallCount w"
  "toolCallStats (update_session r f w) = toolCallStats w"
  "callHistory (update_session r f w) = callHistory w"
  "console (update_session r f w) = console w"
  by (simp_all add: update_session_def)

lemma docs_before_fetch_rejected:
  "\<not> resolveLibraryIdCalled (objects w (sessionRef inst)) \<Longrightarrow> \<not> startsWith_slash lib \<Longrightarrow>
   docs_before_fetch inst clk lib tk tp w = (Return (text_result SEQUENCING_GUIDANCE), w)"
  by (simp add: docs_before_fetch_def Let_def)

lemma docs_before_fetch_admitted:
  "resolveLibraryIdCalled (objects w (sessionRef inst)) \<or> startsWith_slash lib \<Longrightarrow>
   docs_before_fetch inst clk lib tk tp w =
     (AwaitFetch lib (tokens_or_default tk) (topic_or_default tp) (instClientIp inst),
      logToolCall (iso_first clk) get_library_docs
        (Some (topic_or_general (topic_or_default tp)))
        (Some lib) (instClientIp inst) True
        (update_session (sessionRef inst) (\<lambda>s. s\<lparr>getLibraryDocsCalled := True\<rparr>) w))"
  by (auto simp add: docs_before_fetch_def Let_def)

lemma docs_handler_rejected:
  "\<not> resolveLibraryIdCalled (objects w (sessionRef inst)) \<Longrightarrow> \<not> startsWith_slash lib \<Longrightarrow>
   get_library_docs_handler be inst clk lib tk tp w = (text_result SEQUENCING_GUIDANCE, w)"
  by (simp add: get_library_docs_handler_def docs_before_fetch_rejected)

lemma docs_handler_admitted:
  "resolveLibraryIdCalled (objects w (sessionRef inst)) \<or> startsWith_slash lib \<Longrightarrow>
   get_library_docs_handler be inst clk lib tk tp w =
     docs_after_fetch inst clk lib (topic_or_default tp)
       (fetchLibraryDocumentation be lib (tokens_or_default tk) (topic_or_default tp)
          (instClientIp inst))
       (snd (docs_before_fetch inst clk lib tk tp w))"
  by (simp add: get_library_docs_handler_def docs_before_fetch_admitted)

lemma docs_after_fetch_objects:
  "objects (snd (docs_after_fetch inst clk lib topic resp w)) = objects w"
  by (simp add: docs_after_fetch_def logToolCall_fields)

lemma docs_handler_admitted_session:
  assumes "resolveLibraryIdCalled (objects w (sessionRef inst)) \<or> startsWith_slash lib"
  shows "objects (snd (get_library_docs_handler be inst clk lib tk tp w)) (sessionRef inst) =
           (objects w (sessionRef inst))\<lparr>getLibraryDocsCalled := True\<rparr>"
  using assms
  by (simp add: docs_handler_admitted docs_after_fetch_objects docs_before_fetch_admitted
      logToolCall_fields update_session_fields)

section \<open>The sequencing gate\<close>

text \<open>
  C1. In a session whose \<open>resolveLibraryIdCalled\<close> is false, a \<open>get-library-docs\<close> call
  with an id that does not begin with \<open>/\<close> returns the sequencing guidance without
  reaching the backend: the handler returns before its \<open>await\<close>, leaves the whole state
  as it was, and its result is the guidance whatever the backend is. An id that begins
  with \<open>/\<close> is admitted in every state: the handler goes on to call
  \<open>fetchLibraryDocumentation\<close> with that id, the tokens and the topic, and its result
  is what the second half of the handler makes of the backend's answer.
\<close>

theorem docs_gate:
  "(\<not> resolveLibraryIdCalled (objects w (sessionRef inst)) \<and> \<not> startsWith_slash lib \<longrightarrow>
      docs_before_fetch inst clk lib tk tp w = (Return (text_result SEQUENCING_GUIDANCE), w) \<and>
      (\<forall>be :: 'r backend.
         get_library_docs_handler be inst clk lib tk tp w =
           (text_result SEQUENCING_GUIDANCE, w))) \<and>
   (startsWith_slash lib \<longrightarrow>
      (\<exists>tokens topic w'.
         docs_before_fetch inst clk lib tk tp w =
           (AwaitFetch lib tokens topic (instClientIp inst), w')) \<and>
      fst (docs_before_fetch inst clk lib tk tp w) =
        AwaitFetch lib (tokens_or_default tk) (topic_or_default tp) (instClientIp inst) \<and>
      (\<forall>be :: 'r backend.
         get_library_docs_handler be inst clk lib tk tp w =
           docs_after_fetch inst clk lib (topic_or_default tp)
             (fetchLibraryDocumentation be lib (tokens_or_default tk) (topic_or_default tp)
                (instClientIp inst))
             (snd (docs_before_fetch inst clk lib tk tp w))))"
  by (simp add: docs_before_fetch_rejected docs_handler_rejected docs_before_fetch_admitted
      docs_handler_admitted)

theorem docs_gate_witness:
  "\<not> resolveLibraryIdCalled (objects stdio_world (sessionRef stdio_instance)) \<and>
   \<not> startsWith_slash ''react-query'' \<and>
   docs_before_fetch stdio_instance clock0 ''react-query'' None None stdio_world =
     (Return (text_result SEQUENCING_GUIDANCE), stdio_world) \<and>
   get_library_docs_handler full_backend stdio_instance clock0 ''react-query'' None None
     stdio_world = (text_result SEQUENCING_GUIDANCE, stdio_world) \<and>
   startsWith_slash ''/vercel/next.js'' \<and>
   fst (docs_before_fetch stdio_instance clock0 ''/vercel/next.js'' None None stdio_world) =
     AwaitFetch ''/vercel/next.js'' (Finite 10000) [] None \<and>
   fst (get_library_docs_handler full_backend stdio_instance clock0 ''/vercel/next.js'' None
          None stdio_world) = text_result ''docs''"
proof -
  have a: "\<not> resolveLibraryIdCalled (objects stdio_world (sessionRef stdio_instance))"
    by (simp add: stdio_world_def stdio_instance_def createServerInstance_def
        getSessionState_def initial_world_def fresh_session_def identifier_of_def Let_def)
  have b: "\<not> startsWith_slash ''react-query''"
    by (simp add: startsWith_slash_def)
  have c: "startsWith_slash ''/vercel/next.js''"
    by (simp add: startsWith_slash_def)
  have d: "instClientIp stdio_instance = None"
    by (simp add: stdio_instance_def createServerInstance_def getSessionState_def
        initial_world_def identifier_of_def Let_def)
  from a b docs_gate [of stdio_world stdio_instance "''react-query''" clock0 None None]
  have e: "docs_before_fetch stdio_instance clock0 ''react-query'' None None stdio_world =
             (Return (text_result SEQUENCING_GUIDANCE), stdio_world)"
    and f: "get_library_docs_handler full_backend stdio_instance clock0 ''react-query'' None None
             stdio_world = (text_result SEQUENCING_GUIDANCE, stdio_world)"
    by blast+
  have g: "fst (docs_before_fetch stdio_instance clock0 ''/vercel/next.js'' None None stdio_world) =
             AwaitFetch ''/vercel/next.js'' (Finite 10000) [] None"
    using c d
    by (simp add: docs_before_fetch_admitted tokens_or_default_def topic_or_default_def
        DEFAULT_MINIMUM_TOKENS_def)
  from c docs_gate [of stdio_world stdio_instance "''/vercel/next.js''" clock0 None None]
  have "get_library_docs_handler full_backend stdio_instance clock0 ''/vercel/next.js'' None
          None stdio_world =
        docs_after_fetch stdio_instance clock0 ''/vercel/next.js'' (topic_or_default None)
          (fetchLibraryDocumentation full_backend ''/vercel/next.js'' (tokens_or_default None)
             (topic_or_default None) (instClientIp stdio_instance))
          (snd (docs_before_fetch stdio_instance clock0 ''/vercel/next.js'' None None
             stdio_world))"
    by blast
  then have h: "fst (get_library_docs_handler full_backend stdio_instance clock0
                  ''/vercel/next.js'' None None stdio_world) = text_result ''docs''"
    by (simp add: docs_after_fetch_def falsy_docs_def full_backend_def)
  from a b c e f g h show ?thesis by simp
qed

section \<open>\<open>resolve-library-id\<close> and the gating state\<close>

lemma resolve_before_search_session:
  "objects (resolve_before_search inst clk n w) (sessionRef inst) =
     (objects w (sessionRef inst))
       \<lparr>resolveLibraryIdCalled := True, getLibraryDocsCalled := False,
        lastResolveLibraryIdTime := Some (now_ms clk)\<rparr>"
  by (simp add: resolve_before_search_def Let_def logToolCall_fields update_session_fields)

lemma resolve_after_search_objects:
  "objects (snd (resolve_after_search format inst clk n resp w)) = objects w"
  by (simp add: resolve_after_search_def logToolCall_fields)

lemma resolve_handler_session:
  "objects (snd (resolve_library_id_handler be inst clk n w)) (sessionRef inst) =
     (objects w (sessionRef inst))
       \<lparr>resolveLibraryIdCalled := True, getLibraryDocsCalled := False,
        lastResolveLibraryIdTime := Some (now_ms clk)\<rparr>"
  by (simp add: resolve_library_id_handler_def resolve_after_search_objects
      resolve_before_search_session)

lemma resolve_handler_result:
  "fst (resolve_library_id_handler be inst clk n w) =
     (if no_results (searchLibraries be n (instClientIp inst))
      then text_result (resolve_error_text n (searchLibraries be n (instClientIp inst)))
      else text_result (AVAILABLE_LIBRARIES_HEADER @
             formatSearchResults be (searchLibraries be n (instClientIp inst))))"
  by (simp add: resolve_library_id_handler_def resolve_after_search_def)

lemma fixed_failure_texts_distinct:
  "ERROR_ANALYSIS_MESSAGE \<noteq> AVAILABLE_LIBRARIES_HEADER @ x"
  "SEARCH_FAILED_MESSAGE \<noteq> AVAILABLE_LIBRARIES_HEADER @ x"
  by (simp_all add: ERROR_ANALYSIS_MESSAGE_def SEARCH_FAILED_MESSAGE_def
      AVAILABLE_LIBRARIES_HEADER_def)

text \<open>
  C8. A \<open>resolve-library-id\<close> call always returns a result with one text item, and
  leaves its session object with \<open>resolveLibraryIdCalled = true\<close>,
  \<open>getLibraryDocsCalled = false\<close> and \<open>lastResolveLibraryIdTime\<close> the \<open>Date.now()\<close> of
  the call. When the search has no results, the text is the failure text (the
  error-analysis message, the collaborator's own error text, or the default failure
  message; the two fixed messages differ from every success text), and the session
  objects are exactly as the first half of the handler left them. Otherwise the text is
  the header followed by the formatted results.
\<close>

theorem resolve_library_id_sets_gating_state:
  "objects (snd (resolve_library_id_handler be inst clk n w)) (sessionRef inst) =
     (objects w (sessionRef inst))
       \<lparr>resolveLibraryIdCalled := True, getLibraryDocsCalled := False,
        lastResolveLibraryIdTime := Some (now_ms clk)\<rparr> \<and>
   (\<exists>t. fst (resolve_library_id_handler be inst clk n w) = text_result t) \<and>
   (no_results (searchLibraries be n (instClientIp inst)) \<longrightarrow>
      fst (resolve_library_id_handler be inst clk n w) =
        text_result (resolve_error_text n (searchLibraries be n (instClientIp inst))) \<and>
      objects (snd (resolve_library_id_handler be inst clk n w)) =
        objects (resolve_before_search inst clk n w) \<and>
      (\<forall>x. ERROR_ANALYSIS_MESSAGE \<noteq> AVAILABLE_LIBRARIES_HEADER @ x \<and>
           SEARCH_FAILED_MESSAGE \<noteq> AVAILABLE_LIBRARIES_HEADER @ x)) \<and>
   (\<not> no_results (searchLibraries be n (instClientIp inst)) \<longrightarrow>
      fst (resolve_library_id_handler be inst clk n w) =
        text_result (AVAILABLE_LIBRARIES_HEADER @
          formatSearchResults be (searchLibraries be n (instClientIp inst))))"
proof (intro conjI impI)
  show "objects (snd (resolve_library_id_handler be inst clk n w)) (sessionRef inst) =
     (objects w (sessionRef inst))
       \<lparr>resolveLibraryIdCalled := True, getLibraryDocsCalled := False,
        lastResolveLibraryIdTime := Some (now_ms clk)\<rparr>"
    by (rule resolve_handler_session)
  show "\<exists>t. fst (resolve_library_id_handler be inst clk n w) = text_result t"
    by (auto simp add: resolve_handler_result)
  show "objects (snd (resolve_library_id_handler be inst clk n w)) =
        objects (resolve_before_search inst clk n w)"
    by (simp add: resolve_library_id_handler_def resolve_after_search_objects)
  show "\<forall>x. ERROR_ANALYSIS_MESSAGE \<noteq> AVAILABLE_LIBRARIES_HEADER @ x \<and>
           SEARCH_FAILED_MESSAGE \<noteq> AVAILABLE_LIBRARIES_HEADER @ x"
    by (simp add: fixed_failure_texts_distinct)
qed (simp_all add: resolve_handler_result)

lemma stdio_instance_eq:
  "stdio_instance = \<lparr>sessionIdentifier = ''default'', sessionRef = 0, instClientIp = None\<rparr>"
  by (simp add: stdio_instance_def createServerInstance_def getSessionState_def
      initial_world_def identifier_of_def Let_def)

lemma stdio_world_session: "objects stdio_world 0 = fresh_session"
  by (simp add: stdio_world_def createServerInstance_def getSessionState_def
      initial_world_def identifier_of_def Let_def)

lemma react_is_no_error_message: "\<not> containsErrorMessage ''react''"
  by (simp add: containsErrorMessage_def errorPatterns_def lower_ascii_def)

theorem resolve_library_id_sets_gating_state_witness:
  "no_results (searchLibraries empty_backend ''react'' (instClientIp stdio_instance)) \<and>
   fst (resolve_library_id_handler empty_backend stdio_instance clock0 ''react'' stdio_world) =
     text_result SEARCH_FAILED_MESSAGE \<and>
   objects (snd (resolve_library_id_handler empty_backend stdio_instance clock0 ''react''
     stdio_world)) (sessionRef stdio_instance) =
     \<lparr>resolveLibraryIdCalled = True, getLibraryDocsCalled = False,
      lastResolveLibraryIdTime = Some 1000, sessionId = None\<rparr> \<and>
   \<not> no_results (searchLibraries full_backend ''react'' (instClientIp stdio_instance)) \<and>
   fst (resolve_library_id_handler full_backend stdio_instance clock0 ''react'' stdio_world) =
     text_result (AVAILABLE_LIBRARIES_HEADER @ ''- Library ID: /facebook/react'')"
proof -
  have a: "no_results (searchLibraries empty_backend ''react'' (instClientIp stdio_instance))"
    by (simp add: no_results_def empty_backend_def)
  have b: "\<not> no_results (searchLibraries full_backend ''react'' (instClientIp stdio_instance))"
    by (simp add: no_results_def full_backend_def)
  have c: "resolve_error_text ''react''
             (searchLibraries empty_backend ''react'' (instClientIp stdio_instance)) =
           SEARCH_FAILED_MESSAGE"
    by (simp add: resolve_error_text_def react_is_no_error_message empty_backend_def)
  have d: "formatSearchResults full_backend
             (searchLibraries full_backend ''react'' (instClientIp stdio_instance)) =
           ''- Library ID: /facebook/react''"
    by (simp add: full_backend_def)
  note e = resolve_library_id_sets_gating_state
             [of empty_backend stdio_instance clock0 "''react''" stdio_world]
  note f = resolve_library_id_sets_gating_state
             [of full_backend stdio_instance clock0 "''react''" stdio_world]
  have g: "objects (snd (resolve_library_id_handler empty_backend stdio_instance clock0 ''react''
     stdio_world)) (sessionRef stdio_instance) =
     \<lparr>resolveLibraryIdCalled = True, getLibraryDocsCalled = False,
      lastResolveLibraryIdTime = Some 1000, sessionId = None\<rparr>"
    using e by (simp add: stdio_instance_eq stdio_world_session fresh_session_def clock0_def)
  from a e c have h:
    "fst (resolve_library_id_handler empty_backend stdio_instance clock0 ''react'' stdio_world) =
       text_result SEARCH_FAILED_MESSAGE"
    by simp
  from b f d have i:
    "fst (resolve_library_id_handler full_backend stdio_instance clock0 ''react'' stdio_world) =
       text_result (AVAILABLE_LIBRARIES_HEADER @ ''- Library ID: /facebook/react'')"
    by simp
  from a b g h i show ?thesis by simp
qed

section \<open>The watchdog\<close>

text \<open>
  C4. The watchdog period is shorter than the expiry age. When the interval fires on a
  session with \<open>resolveLibraryIdCalled = true\<close>, \<open>getLibraryDocsCalled = false\<close> and a
  last resolve time more than \<open>T_expire\<close> milliseconds before the clock reading, both
  flags of the session object become false, the other objects stay as they are and one
  warning naming the session identifier is written. When \<open>getLibraryDocsCalled\<close> is
  true, the firing changes nothing, whatever the clock reading.
\<close>

theorem watchdog_resets_pending_only:
  "T_check < T_expire \<and>
   (resolveLibraryIdCalled (objects w (sessionRef inst)) \<and>
    \<not> getLibraryDocsCalled (objects w (sessionRef inst)) \<and>
    lastResolveLibraryIdTime (objects w (sessionRef inst)) = Some t \<and>
    now - t > T_expire \<longrightarrow>
      objects (watchdog_tick inst now w) =
        (objects w)(sessionRef inst :=
          (objects w (sessionRef inst))
            \<lparr>resolveLibraryIdCalled := False, getLibraryDocsCalled := False\<rparr>) \<and>
      resolveLibraryIdCalled (objects (watchdog_tick inst now w) (sessionRef inst)) = False \<and>
      getLibraryDocsCalled (objects (watchdog_tick inst now w) (sessionRef inst)) = False \<and>
      console (watchdog_tick inst now w) = console w @ [WARNING (sessionIdentifier inst)]) \<and>
   (getLibraryDocsCalled (objects w (sessionRef inst)) \<longrightarrow> watchdog_tick inst now w = w)"
  by (simp add: watchdog_tick_def Let_def update_session_def T_check_def T_expire_def)

lemma resolved_world_session:
  "objects resolved_world (sessionRef stdio_instance) =
     \<lparr>resolveLibraryIdCalled = True, getLibraryDocsCalled = False,
      lastResolveLibraryIdTime = Some 1000, sessionId = None\<rparr>"
proof -
  have "sessionRef stdio_instance = 0"
    by (simp add: stdio_instance_eq)
  then show ?thesis
    unfolding resolved_world_def resolve_handler_session
    by (simp add: stdio_world_session fresh_session_def clock0_def)
qed

theorem watchdog_resets_pending_only_witness:
  "resolveLibraryIdCalled (objects resolved_world (sessionRef stdio_instance)) \<and>
   \<not> getLibraryDocsCalled (objects resolved_world (sessionRef stdio_instance)) \<and>
   lastResolveLibraryIdTime (objects resolved_world (sessionRef stdio_instance)) = Some 1000 \<and>
   76001 - 1000 > T_expire \<and>
   objects (watchdog_tick stdio_instance 76001 resolved_world) (sessionRef stdio_instance) =
     \<lparr>resolveLibraryIdCalled = False, getLibraryDocsCalled = False,
      lastResolveLibraryIdTime = Some 1000, sessionId = None\<rparr> \<and>
   console (watchdog_tick stdio_instance 76001 resolved_world) =
     console resolved_world @ [WARNING ''default''] \<and>
   getLibraryDocsCalled
     (objects (snd (get_library_docs_handler full_backend stdio_instance clock0 ''react''
        None None resolved_world)) (sessionRef stdio_instance)) \<and>
   watchdog_tick stdio_instance 999999999
     (snd (get_library_docs_handler full_backend stdio_instance clock0 ''react'' None None
        resolved_world)) =
     snd (get_library_docs_handler full_backend stdio_instance clock0 ''react'' None None
        resolved_world)"
proof -
  let ?w2 = "snd (get_library_docs_handler full_backend stdio_instance clock0 ''react'' None
               None resolved_world)"
  have a: "resolveLibraryIdCalled (objects resolved_world (sessionRef stdio_instance))"
    and b: "\<not> getLibraryDocsCalled (objects resolved_world (sessionRef stdio_instance))"
    and c: "lastResolveLibraryIdTime (objects resolved_world (sessionRef stdio_instance)) =
              Some 1000"
    by (simp_all add: resolved_world_session)
  have d: "76001 - 1000 > T_expire"
    by (simp add: T_expire_def)
  have e: "getLibraryDocsCalled (objects ?w2 (sessionRef stdio_instance))"
    using a by (simp add: docs_handler_admitted_session)
  from a b c d
    watchdog_resets_pending_only [of resolved_world stdio_instance 1000 76001]
  have f: "objects (watchdog_tick stdio_instance 76001 resolved_world) =
             (objects resolved_world)(sessionRef stdio_instance :=
               (objects resolved_world (sessionRef stdio_instance))
                 \<lparr>resolveLibraryIdCalled := False, getLibraryDocsCalled := False\<rparr>)"
    and g: "console (watchdog_tick stdio_instance 76001 resolved_world) =
              console resolved_world @ [WARNING (sessionIdentifier stdio_instance)]"
    by blast+
  from e watchdog_resets_pending_only [of ?w2 stdio_instance 0 999999999]
  have h: "watchdog_tick stdio_instance 999999999 ?w2 = ?w2"
    by blast
  have i: "objects (watchdog_tick stdio_instance 76001 resolved_world)
             (sessionRef stdio_instance) =
           \<lparr>resolveLibraryIdCalled = False, getLibraryDocsCalled = False,
            lastResolveLibraryIdTime = Some 1000, sessionId = None\<rparr>"
    by (simp add: f resolved_world_session)
  have j: "sessionIdentifier stdio_instance = ''default''"
    by (simp add: stdio_instance_eq)
  from a b c d e g h i j show ?thesis by simp
qed

section \<open>The gate enables and is not consumed\<close>

lemma run_docs_calls_flags:
  "resolveLibraryIdCalled (objects w (sessionRef inst)) \<Longrightarrow>
   resolveLibraryIdCalled (objects (run_docs_calls inst cs w) (sessionRef inst)) \<and>
   (getLibraryDocsCalled (objects w (sessionRef inst)) \<or> cs \<noteq> [] \<longrightarrow>
      getLibraryDocsCalled (objects (run_docs_calls inst cs w) (sessionRef inst)))"
proof (induction cs arbitrary: w)
  case Nil
  then show ?case by simp
next
  case (Cons c cs)
  let ?w1 = "snd (get_library_docs_handler (dc_backend c) inst (dc_clock c) (dc_libraryId c)
                    (dc_tokens c) (dc_topic c) w)"
  have s: "objects ?w1 (sessionRef inst) =
             (objects w (sessionRef inst))\<lparr>getLibraryDocsCalled := True\<rparr>"
    using Cons.prems by (simp add: docs_handler_admitted_session)
  then have "resolveLibraryIdCalled (objects ?w1 (sessionRef inst))"
    and "getLibraryDocsCalled (objects ?w1 (sessionRef inst))"
    using Cons.prems by simp_all
  with Cons.IH [of ?w1] show ?case by simp
qed

text \<open>
  C2. In a session whose \<open>resolveLibraryIdCalled\<close> is true, after any sequence of
  \<open>get-library-docs\<close> calls through the session's handler (any ids, any backend
  answers, empty or not) the flag is still true, \<open>getLibraryDocsCalled\<close> is true once
  one call was made, and the next \<open>get-library-docs\<close> call, with any id, is admitted:
  the handler reaches the fetch, and its result is what the second half of the handler
  makes of the backend's answer.
\<close>

theorem docs_gate_not_consumed:
  assumes "resolveLibraryIdCalled (objects w (sessionRef inst))"
  shows "resolveLibraryIdCalled (objects (run_docs_calls inst cs w) (sessionRef inst)) \<and>
         (cs \<noteq> [] \<longrightarrow>
            getLibraryDocsCalled (objects (run_docs_calls inst cs w) (sessionRef inst))) \<and>
         (\<forall>clk lib tk tp. \<exists>tokens topic w'.
            docs_before_fetch inst clk lib tk tp (run_docs_calls inst cs w) =
              (AwaitFetch lib tokens topic (instClientIp inst), w')) \<and>
         (\<forall>(be :: 'r backend) clk lib tk tp.
            get_library_docs_handler be inst clk lib tk tp (run_docs_calls inst cs w) =
              docs_after_fetch inst clk lib (topic_or_default tp)
                (fetchLibraryDocumentation be lib (tokens_or_default tk) (topic_or_default tp)
                   (instClientIp inst))
                (snd (docs_before_fetch inst clk lib tk tp (run_docs_calls inst cs w))))"
proof -
  from assms run_docs_calls_flags [of w inst cs]
  have a: "resolveLibraryIdCalled (objects (run_docs_calls inst cs w) (sessionRef inst))"
    and b: "cs \<noteq> [] \<longrightarrow>
              getLibraryDocsCalled (objects (run_docs_calls inst cs w) (sessionRef inst))"
    by simp_all
  from a have "\<forall>clk lib tk tp. \<exists>tokens topic w'.
            docs_before_fetch inst clk lib tk tp (run_docs_calls inst cs w) =
              (AwaitFetch lib tokens topic (instClientIp inst), w')"
    by (simp add: docs_before_fetch_admitted)
  moreover from a have "\<forall>(be :: 'r backend) clk lib tk tp.
            get_library_docs_handler be inst clk lib tk tp (run_docs_calls inst cs w) =
              docs_after_fetch inst clk lib (topic_or_default tp)
                (fetchLibraryDocumentation be lib (tokens_or_default tk) (topic_or_default tp)
                   (instClientIp inst))
                (snd (docs_before_fetch inst clk lib tk tp (run_docs_calls inst cs w)))"
    by (simp add: docs_handler_admitted)
  ultimately show ?thesis using a b by simp
qed

theorem docs_gate_not_consumed_witness:
  "resolveLibraryIdCalled (objects resolved_world (sessionRef stdio_instance)) \<and>
   two_docs_calls \<noteq> [] \<and>
   resolveLibraryIdCalled
     (objects (run_docs_calls stdio_instance two_docs_calls resolved_world)
        (sessionRef stdio_instance)) \<and>
   getLibraryDocsCalled
     (objects (run_docs_calls stdio_instance two_docs_calls resolved_world)
        (sessionRef stdio_instance)) \<and>
   fst (docs_before_fetch stdio_instance clock0 ''react'' None None
          (run_docs_calls stdio_instance two_docs_calls resolved_world)) =
     AwaitFetch ''react'' (Finite 10000) [] None"
proof -
  let ?w = "run_docs_calls stdio_instance two_docs_calls resolved_world"
  have a: "resolveLibraryIdCalled (objects resolved_world (sessionRef stdio_instance))"
    by (simp add: resolved_world_session)
  have b: "two_docs_calls \<noteq> []"
    by (simp add: two_docs_calls_def)
  note c = docs_gate_not_consumed [OF a, of two_docs_calls]
  from c have d: "resolveLibraryIdCalled (objects ?w (sessionRef stdio_instance))"
    by blast
  from c b have e: "getLibraryDocsCalled (objects ?w (sessionRef stdio_instance))"
    by blast
  have f: "instClientIp stdio_instance = None"
    by (simp add: stdio_instance_eq)
  from d f have g: "fst (docs_before_fetch stdio_instance clock0 ''react'' None None ?w) =
                      AwaitFetch ''react'' (Finite 10000) [] None"
    by (simp add: docs_before_fetch_admitted tokens_or_default_def topic_or_default_def
        DEFAULT_MINIMUM_TOKENS_def)
  from a b d e g show ?thesis by simp
qed

section \<open>What the handlers record\<close>

lemma bump_counts:
  "resolve_library_id_count (bump resolve_library_id st) = resolve_library_id_count st + 1"
  "get_library_docs_count (bump resolve_library_id st) = get_library_docs_count st"
  "get_library_docs_count (bump get_library_docs st) = get_library_docs_count st + 1"
  "resolve_library_id_count (bump get_library_docs st) = resolve_library_id_count st"
  by (simp_all add: bump_def)

lemma slice_last_two:
  "slice_last n (slice_last n (xs @ [a]) @ [b]) = slice_last n (xs @ [a, b])"
  using slice_last_idem_append [of n "xs @ [a]" "[b]"] by simp

lemma resolve_handler_telemetry:
  fixes be :: "'r backend" and n :: string and inst :: serverInstance and clk :: clock
    and w :: world
  defines "resp \<equiv> searchLibraries be n (instClientIp inst)"
  defines "w' \<equiv> snd (resolve_library_id_handler be inst clk n w)"
  defines "e1 \<equiv> mkEntry (iso_first clk) resolve_library_id (Some n) None (instClientIp inst) True"
  defines "e2 \<equiv> mkEntry (iso_second clk) resolve_library_id (Some n) None (instClientIp inst) False"
  shows "totalCallCount w' = totalCallCount w + (if no_results resp then 2 else 1)"
    and "resolve_library_id_count (toolCallStats w') =
           resolve_library_id_count (toolCallStats w) + (if no_results resp then 2 else 1)"
    and "get_library_docs_count (toolCallStats w') = get_library_docs_count (toolCallStats w)"
    and "callHistory w' =
           slice_last 100 (callHistory w @ (if no_results resp then [e1, e2] else [e1]))"
  unfolding resp_def w'_def e1_def e2_def
  by (simp_all add: resolve_library_id_handler_def resolve_after_search_def
      resolve_before_search_def Let_def logToolCall_fields update_session_fields bump_counts
      callHistory_logToolCall slice_last_two)

lemma docs_handler_telemetry:
  fixes be :: "'r backend" and lib :: string and inst :: serverInstance and clk :: clock
    and w :: world and tk :: "jsnumber option" and tp :: "string option"
  assumes adm: "resolveLibraryIdCalled (objects w (sessionRef inst)) \<or> startsWith_slash lib"
  defines "resp \<equiv> fetchLibraryDocumentation be lib (tokens_or_default tk) (topic_or_default tp)
                     (instClientIp inst)"
  defines "w' \<equiv> snd (get_library_docs_handler be inst clk lib tk tp w)"
  defines "e1 \<equiv> mkEntry (iso_first clk) get_library_docs
                   (Some (topic_or_general (topic_or_default tp))) (Some lib)
                   (instClientIp inst) True"
  defines "e2 \<equiv> mkEntry (iso_second clk) get_library_docs
                   (Some (topic_or_general (topic_or_default tp))) (Some lib)
                   (instClientIp inst) False"
  shows "totalCallCount w' = totalCallCount w + (if falsy_docs resp then 2 else 1)"
    and "get_library_docs_count (toolCallStats w') =
           get_library_docs_count (toolCallStats w) + (if falsy_docs resp then 2 else 1)"
    and "resolve_library_id_count (toolCallStats w') =
           resolve_library_id_count (toolCallStats w)"
    and "callHistory w' =
           slice_last 100 (callHistory w @ (if falsy_docs resp then [e1, e2] else [e1]))"
  unfolding resp_def w'_def e1_def e2_def
  using adm
  by (simp_all add: docs_handler_admitted docs_before_fetch_admitted docs_after_fetch_def
      logToolCall_fields update_session_fields bump_counts callHistory_logToolCall
      slice_last_two)

text \<open>
  C10. A \<open>resolve-library-id\<close> call whose search has no results, and an admitted
  \<open>get-library-docs\<close> call whose fetch result is \<open>null\<close> or empty, each push two
  entries onto \<open>callHistory\<close>, the first with \<open>success = true\<close> and then one with
  \<open>success = false\<close> (the history keeps its last 100 entries), and add 2 to
  \<open>totalCallCount\<close> and to the counter of that tool, leaving the other tool's counter.
\<close>

theorem empty_result_recorded_twice:
  fixes be :: "'r backend"
  shows
  "(no_results (searchLibraries be n (instClientIp inst)) \<longrightarrow>
      totalCallCount (snd (resolve_library_id_handler be inst clk n w)) = totalCallCount w + 2 \<and>
      resolve_library_id_count (toolCallStats (snd (resolve_library_id_handler be inst clk n w))) =
        resolve_library_id_count (toolCallStats w) + 2 \<and>
      get_library_docs_count (toolCallStats (snd (resolve_library_id_handler be inst clk n w))) =
        get_library_docs_count (toolCallStats w) \<and>
      callHistory (snd (resolve_library_id_handler be inst clk n w)) =
        slice_last 100 (callHistory w @
          [mkEntry (iso_first clk) resolve_library_id (Some n) None (instClientIp inst) True,
           mkEntry (iso_second clk) resolve_library_id (Some n) None (instClientIp inst) False])) \<and>
   ((resolveLibraryIdCalled (objects w (sessionRef inst)) \<or> startsWith_slash lib) \<and>
    falsy_docs (fetchLibraryDocumentation be lib (tokens_or_default tk) (topic_or_default tp)
      (instClientIp inst)) \<longrightarrow>
      totalCallCount (snd (get_library_docs_handler be inst clk lib tk tp w)) =
        totalCallCount w + 2 \<and>
      get_library_docs_count (toolCallStats (snd (get_library_docs_handler be inst clk lib tk tp w))) =
        get_library_docs_count (toolCallStats w) + 2 \<and>
      resolve_library_id_count (toolCallStats (snd (get_library_docs_handler be inst clk lib tk tp w))) =
        resolve_library_id_count (toolCallStats w) \<and>
      callHistory (snd (get_library_docs_handler be inst clk lib tk tp w)) =
        slice_last 100 (callHistory w @
          [mkEntry (iso_first clk) get_library_docs
             (Some (topic_or_general (topic_or_default tp))) (Some lib) (instClientIp inst) True,
           mkEntry (iso_second clk) get_library_docs
             (Some (topic_or_general (topic_or_default tp))) (Some lib) (instClientIp inst)
             False]))"
proof (intro conjI impI)
  assume "no_results (searchLibraries be n (instClientIp inst))"
  then show
    "totalCallCount (snd (resolve_library_id_handler be inst clk n w)) = totalCallCount w + 2"
    "resolve_library_id_count (toolCallStats (snd (resolve_library_id_handler be inst clk n w))) =
        resolve_library_id_count (toolCallStats w) + 2"
    "get_library_docs_count (toolCallStats (snd (resolve_library_id_handler be inst clk n w))) =
        get_library_docs_count (toolCallStats w)"
    "callHistory (snd (resolve_library_id_handler be inst clk n w)) =
        slice_last 100 (callHistory w @
          [mkEntry (iso_first clk) resolve_library_id (Some n) None (instClientIp inst) True,
           mkEntry (iso_second clk) resolve_library_id (Some n) None (instClientIp inst) False])"
    by (simp_all add: resolve_handler_telemetry)
next
  assume "(resolveLibraryIdCalled (objects w (sessionRef inst)) \<or> startsWith_slash lib) \<and>
    falsy_docs (fetchLibraryDocumentation be lib (tokens_or_default tk) (topic_or_default tp)
      (instClientIp inst))"
  then have adm: "resolveLibraryIdCalled (objects w (sessionRef inst)) \<or> startsWith_slash lib"
    and emp: "falsy_docs (fetchLibraryDocumentation be lib (tokens_or_default tk)
                (topic_or_default tp) (instClientIp inst))"
    by simp_all
  from emp show
    "totalCallCount (snd (get_library_docs_handler be inst clk lib tk tp w)) =
        totalCallCount w + 2"
    "get_library_docs_count (toolCallStats (snd (get_library_docs_handler be inst clk lib tk tp w))) =
        get_library_docs_count (toolCallStats w) + 2"
    "resolve_library_id_count (toolCallStats (snd (get_library_docs_handler be inst clk lib tk tp w))) =
        resolve_library_id_count (toolCallStats w)"
    "callHistory (snd (get_library_docs_handler be inst clk lib tk tp w)) =
        slice_last 100 (callHistory w @
          [mkEntry (iso_first clk) get_library_docs
             (Some (topic_or_general (topic_or_default tp))) (Some lib) (instClientIp inst) True,
           mkEntry (iso_second clk) get_library_docs
             (Some (topic_or_general (topic_or_default tp))) (Some lib) (instClientIp inst)
             False])"
    by (simp_all add: docs_handler_telemetry [OF adm])
qed

lemma stdio_world_telemetry:
  "totalCallCount stdio_world = 0"
  "resolve_library_id_count (toolCallStats stdio_world) = 0"
  "get_library_docs_count (toolCallStats stdio_world) = 0"
  "callHistory stdio_world = []"
  by (simp_all add: stdio_world_def createServerInstance_def getSessionState_def
      initial_world_def identifier_of_def Let_def)

lemma full_backend_finds: "\<not> no_results (searchLibraries full_backend n ip)"
  by (simp add: no_results_def full_backend_def)

lemma empty_backend_finds_nothing:
  "no_results (searchLibraries empty_backend n ip)"
  "falsy_docs (fetchLibraryDocumentation empty_backend lib tokens topic ip)"
  by (simp_all add: no_results_def falsy_docs_def empty_backend_def)

lemma resolved_world_telemetry:
  "totalCallCount resolved_world = 1"
  "callHistory resolved_world =
     [mkEntry (iso_first clock0) resolve_library_id (Some ''react'') None
        (instClientIp stdio_instance) True]"
  unfolding resolved_world_def
  by (simp_all add: resolve_handler_telemetry full_backend_finds stdio_world_telemetry
      slice_last_def)

theorem empty_result_recorded_twice_witness:
  "no_results (searchLibraries empty_backend ''react'' (instClientIp stdio_instance)) \<and>
   totalCallCount
     (snd (resolve_library_id_handler empty_backend stdio_instance clock0 ''react'' stdio_world)) = 2 \<and>
   resolve_library_id_count (toolCallStats
     (snd (resolve_library_id_handler empty_backend stdio_instance clock0 ''react'' stdio_world))) = 2 \<and>
   map success (callHistory
     (snd (resolve_library_id_handler empty_backend stdio_instance clock0 ''react'' stdio_world))) =
     [True, False] \<and>
   (resolveLibraryIdCalled (objects resolved_world (sessionRef stdio_instance)) \<or>
    startsWith_slash ''react'') \<and>
   falsy_docs (fetchLibraryDocumentation empty_backend ''react'' (tokens_or_default None)
     (topic_or_default None) (instClientIp stdio_instance)) \<and>
   totalCallCount
     (snd (get_library_docs_handler empty_backend stdio_instance clock0 ''react'' None None
        resolved_world)) = 3 \<and>
   map success (callHistory
     (snd (get_library_docs_handler empty_backend stdio_instance clock0 ''react'' None None
        resolved_world))) = [True, True, False]"
proof -
  let ?w1 = "snd (resolve_library_id_handler empty_backend stdio_instance clock0 ''react''
               stdio_world)"
  let ?w2 = "snd (get_library_docs_handler empty_backend stdio_instance clock0 ''react'' None
               None resolved_world)"
  have a: "no_results (searchLibraries empty_backend ''react'' (instClientIp stdio_instance))"
    by (rule empty_backend_finds_nothing)
  have b: "resolveLibraryIdCalled (objects resolved_world (sessionRef stdio_instance)) \<or>
           startsWith_slash ''react''"
    by (simp add: resolved_world_session)
  have c: "falsy_docs (fetchLibraryDocumentation empty_backend ''react'' (tokens_or_default None)
             (topic_or_default None) (instClientIp stdio_instance))"
    by (rule empty_backend_finds_nothing)
  note t = empty_result_recorded_twice
             [of empty_backend "''react''" stdio_instance clock0 stdio_world]
  note u = empty_result_recorded_twice
             [where be = empty_backend and inst = stdio_instance and clk = clock0
               and w = resolved_world and lib = "''react''" and tk = None and tp = None]
  from t a have d: "totalCallCount ?w1 = 2"
    and e: "resolve_library_id_count (toolCallStats ?w1) = 2"
    and f: "map success (callHistory ?w1) = [True, False]"
    by (simp_all add: stdio_world_telemetry slice_last_def mkEntry_def)
  from u b c have g: "totalCallCount ?w2 = 3"
    and h: "map success (callHistory ?w2) = [True, True, False]"
    by (simp_all add: resolved_world_telemetry slice_last_def mkEntry_def)
  from a b c d e f g h show ?thesis by simp
qed

text \<open>
  C9, as stated, fails on a call the gate rejects: the first call of a fresh single-pipe
  session, \<open>get-library-docs\<close> with the id \<open>react-query\<close>, returns the sequencing
  guidance and leaves both counters at 0 and the history empty.
\<close>

theorem rejected_call_not_recorded:
  "fst (get_library_docs_handler full_backend stdio_instance clock0 ''react-query'' None None
          stdio_world) = text_result SEQUENCING_GUIDANCE \<and>
   totalCallCount (snd (get_library_docs_handler full_backend stdio_instance clock0
     ''react-query'' None None stdio_world)) = 0 \<and>
   get_library_docs_count (toolCallStats (snd (get_library_docs_handler full_backend
     stdio_instance clock0 ''react-query'' None None stdio_world))) = 0 \<and>
   callHistory (snd (get_library_docs_handler full_backend stdio_instance clock0
     ''react-query'' None None stdio_world)) = []"
proof -
  have a: "\<not> resolveLibraryIdCalled (objects stdio_world (sessionRef stdio_instance))"
    by (simp add: stdio_instance_eq stdio_world_session fresh_session_def)
  have b: "\<not> startsWith_slash ''react-query''"
    by (simp add: startsWith_slash_def)
  from a b show ?thesis
    by (simp add: docs_handler_rejected stdio_world_telemetry)
qed

text \<open>
  C9, amended. Every \<open>resolve-library-id\<close> call, and every \<open>get-library-docs\<close> call the
  gate admits, pushes an entry with \<open>success = true\<close> onto \<open>callHistory\<close> (which keeps
  its last 100 entries) and adds 1 to \<open>totalCallCount\<close> and to the counter of its tool;
  when the backend result is empty a second entry with \<open>success = false\<close> follows and
  the counters go up once more. A \<open>get-library-docs\<close> call the gate rejects records
  nothing: the whole state, counters and history included, is unchanged.
\<close>

theorem admitted_calls_recorded:
  fixes be :: "'r backend"
  shows
  "totalCallCount (snd (resolve_library_id_handler be inst clk n w)) =
     totalCallCount w + (if no_results (searchLibraries be n (instClientIp inst)) then 2 else 1) \<and>
   resolve_library_id_count (toolCallStats (snd (resolve_library_id_handler be inst clk n w))) =
     resolve_library_id_count (toolCallStats w) +
       (if no_results (searchLibraries be n (instClientIp inst)) then 2 else 1) \<and>
   callHistory (snd (resolve_library_id_handler be inst clk n w)) =
     slice_last 100 (callHistory w @
       (if no_results (searchLibraries be n (instClientIp inst))
        then [mkEntry (iso_first clk) resolve_library_id (Some n) None (instClientIp inst) True,
              mkEntry (iso_second clk) resolve_library_id (Some n) None (instClientIp inst) False]
        else [mkEntry (iso_first clk) resolve_library_id (Some n) None (instClientIp inst)
                True])) \<and>
   (resolveLibraryIdCalled (objects w (sessionRef inst)) \<or> startsWith_slash lib \<longrightarrow>
      totalCallCount (snd (get_library_docs_handler be inst clk lib tk tp w)) =
        totalCallCount w +
          (if falsy_docs (fetchLibraryDocumentation be lib (tokens_or_default tk)
                (topic_or_default tp) (instClientIp inst)) then 2 else 1) \<and>
      get_library_docs_count (toolCallStats (snd (get_library_docs_handler be inst clk lib tk tp w))) =
        get_library_docs_count (toolCallStats w) +
          (if falsy_docs (fetchLibraryDocumentation be lib (tokens_or_default tk)
                (topic_or_default tp) (instClientIp inst)) then 2 else 1) \<and>
      callHistory (snd (get_library_docs_handler be inst clk lib tk tp w)) =
        slice_last 100 (callHistory w @
          (if falsy_docs (fetchLibraryDocumentation be lib (tokens_or_default tk)
                (topic_or_default tp) (instClientIp inst))
           then [mkEntry (iso_first clk) get_library_docs
                   (Some (topic_or_general (topic_or_default tp))) (Some lib)
                   (instClientIp inst) True,
                 mkEntry (iso_second clk) get_library_docs
                   (Some (topic_or_general (topic_or_default tp))) (Some lib)
                   (instClientIp inst) False]
           else [mkEntry (iso_first clk) get_library_docs
                   (Some (topic_or_general (topic_or_default tp))) (Some lib)
                   (instClientIp inst) True]))) \<and>
   (\<not> resolveLibraryIdCalled (objects w (sessionRef inst)) \<and> \<not> startsWith_slash lib \<longrightarrow>
      snd (get_library_docs_handler be inst clk lib tk tp w) = w)"
proof (intro conjI impI)
  assume adm: "resolveLibraryIdCalled (objects w (sessionRef inst)) \<or> startsWith_slash lib"
  show "totalCallCount (snd (get_library_docs_handler be inst clk lib tk tp w)) =
        totalCallCount w +
          (if falsy_docs (fetchLibraryDocumentation be lib (tokens_or_default tk)
                (topic_or_default tp) (instClientIp inst)) then 2 else 1)"
    by (rule docs_handler_telemetry(1) [OF adm])
  show "get_library_docs_count (toolCallStats (snd (get_library_docs_handler be inst clk lib tk tp w))) =
        get_library_docs_count (toolCallStats w) +
          (if falsy_docs (fetchLibraryDocumentation be lib (tokens_or_default tk)
                (topic_or_default tp) (instClientIp inst)) then 2 else 1)"
    by (rule docs_handler_telemetry(2) [OF adm])
  show "callHistory (snd (get_library_docs_handler be inst clk lib tk tp w)) =
        slice_last 100 (callHistory w @
          (if falsy_docs (fetchLibraryDocumentation be lib (tokens_or_default tk)
                (topic_or_default tp) (instClientIp inst))
           then [mkEntry (iso_first clk) get_library_docs
                   (Some (topic_or_general (topic_or_default tp))) (Some lib)
                   (instClientIp inst) True,
                 mkEntry (iso_second clk) get_library_docs
                   (Some (topic_or_general (topic_or_default tp))) (Some lib)
                   (instClientIp inst) False]
           else [mkEntry (iso_first clk) get_library_docs
                   (Some (topic_or_general (topic_or_default tp))) (Some lib)
                   (instClientIp inst) True]))"
    by (rule docs_handler_telemetry(4) [OF adm])
next
  assume "\<not> resolveLibraryIdCalled (objects w (sessionRef inst)) \<and> \<not> startsWith_slash lib"
  then show "snd (get_library_docs_handler be inst clk lib tk tp w) = w"
    by (simp add: docs_handler_rejected)
qed (rule resolve_handler_telemetry)+

theorem admitted_calls_recorded_witness:
  "totalCallCount
     (snd (resolve_library_id_handler full_backend stdio_instance clock0 ''react'' stdio_world)) = 1 \<and>
   map success (callHistory
     (snd (resolve_library_id_handler full_backend stdio_instance clock0 ''react'' stdio_world))) =
     [True] \<and>
   (resolveLibraryIdCalled (objects resolved_world (sessionRef stdio_instance)) \<or>
    startsWith_slash ''react'') \<and>
   totalCallCount
     (snd (get_library_docs_handler full_backend stdio_instance clock0 ''react'' None None
        resolved_world)) = 2 \<and>
   get_library_docs_count (toolCallStats
     (snd (get_library_docs_handler full_backend stdio_instance clock0 ''react'' None None
        resolved_world))) = 1 \<and>
   map tool (callHistory
     (snd (get_library_docs_handler full_backend stdio_instance clock0 ''react'' None None
        resolved_world))) = [resolve_library_id, get_library_docs] \<and>
   \<not> resolveLibraryIdCalled (objects stdio_world (sessionRef stdio_instance)) \<and>
   \<not> startsWith_slash ''react-query'' \<and>
   snd (get_library_docs_handler full_backend stdio_instance clock0 ''react-query'' None None
          stdio_world) = stdio_world"
proof -
  let ?w1 = "snd (resolve_library_id_handler full_backend stdio_instance clock0 ''react''
               stdio_world)"
  let ?w2 = "snd (get_library_docs_handler full_backend stdio_instance clock0 ''react'' None
               None resolved_world)"
  have a: "resolveLibraryIdCalled (objects resolved_world (sessionRef stdio_instance)) \<or>
           startsWith_slash ''react''"
    by (simp add: resolved_world_session)
  have b: "\<not> resolveLibraryIdCalled (objects stdio_world (sessionRef stdio_instance))"
    by (simp add: stdio_instance_eq stdio_world_session fresh_session_def)
  have c: "\<not> startsWith_slash ''react-query''"
    by (simp add: startsWith_slash_def)
  have nf: "\<not> falsy_docs (fetchLibraryDocumentation full_backend ''react''
              (tokens_or_default None) (topic_or_default None) (instClientIp stdio_instance))"
    by (simp add: falsy_docs_def full_backend_def)
  have st: "get_library_docs_count (toolCallStats resolved_world) = 0"
    unfolding resolved_world_def
    by (simp add: resolve_handler_telemetry stdio_world_telemetry)
  note t = admitted_calls_recorded
             [where be = full_backend and inst = stdio_instance and clk = clock0
               and w = stdio_world and n = "''react''" and lib = "''react-query''"
               and tk = None and tp = None]
  note u = admitted_calls_recorded
             [where be = full_backend and inst = stdio_instance and clk = clock0
               and w = resolved_world and n = "''react''" and lib = "''react''"
               and tk = None and tp = None]
  from t have d: "totalCallCount ?w1 = 1"
    and e: "map success (callHistory ?w1) = [True]"
    by (simp_all add: full_backend_finds stdio_world_telemetry slice_last_def mkEntry_def)
  from t b c have f:
    "snd (get_library_docs_handler full_backend stdio_instance clock0 ''react-query'' None None
            stdio_world) = stdio_world"
    by blast
  from u a nf have g: "totalCallCount ?w2 = 2"
    and h: "get_library_docs_count (toolCallStats ?w2) = 1"
    and i: "map tool (callHistory ?w2) = [resolve_library_id, get_library_docs]"
    by (simp_all add: resolved_world_telemetry st slice_last_def mkEntry_def)
  from a b c d e f g h i show ?thesis by simp
qed

section \<open>Sessions across HTTP requests\<close>

lemma getSessionState_present:
  "sessionStates w k = Some r \<Longrightarrow> getSessionState k w = (r, w)"
  by (simp add: getSessionState_def)

lemma getSessionState_registers:
  "sessionStates (snd (getSessionState k w)) k = Some (fst (getSessionState k w))"
  by (simp add: getSessionState_def split: option.splits)

lemma createServerInstance_parts:
  "fst (createServerInstance ip w) =
     \<lparr>sessionIdentifier = identifier_of ip,
      sessionRef = fst (getSessionState (identifier_of ip) w), instClientIp = ip\<rparr>"
  "snd (createServerInstance ip w) = snd (getSessionState (identifier_of ip) w)"
  by (simp_all add: createServerInstance_def Let_def split: prod.splits)

lemma createServerInstance_eq:
  "createServerInstance ip w =
     (\<lparr>sessionIdentifier = identifier_of ip,
       sessionRef = fst (getSessionState (identifier_of ip) w), instClientIp = ip\<rparr>,
      snd (getSessionState (identifier_of ip) w))"
  by (simp add: createServerInstance_def Let_def split: prod.splits)

lemma call_tool_sessionStates:
  "sessionStates (snd (call_tool be inst clk c w)) = sessionStates w"
proof (cases c)
  case (ResolveCall n)
  then show ?thesis
    by (simp add: call_tool_def resolve_library_id_handler_def resolve_after_search_def
        resolve_before_search_def logToolCall_fields update_session_fields)
next
  case (DocsCall lib tk tp)
  show ?thesis
  proof (cases "resolveLibraryIdCalled (objects w (sessionRef inst)) \<or> startsWith_slash lib")
    case True
    then show ?thesis
      using DocsCall
      by (simp add: call_tool_def docs_handler_admitted docs_before_fetch_admitted
          docs_after_fetch_def logToolCall_fields update_session_fields)
  next
    case False
    then show ?thesis
      using DocsCall by (simp add: call_tool_def docs_handler_rejected)
  qed
qed

lemma post_mcp_parts:
  "mcp_instance be req clk c w = fst (createServerInstance (getClientIp req) w)"
  "mcp_world be req clk c w =
     snd (call_tool be (fst (createServerInstance (getClientIp req) w)) clk c
            (snd (createServerInstance (getClientIp req) w)))"
  "mcp_result be req clk c w =
     fst (call_tool be (fst (createServerInstance (getClientIp req) w)) clk c
            (snd (createServerInstance (getClientIp req) w)))"
  by (simp_all add: mcp_instance_def mcp_world_def mcp_result_def post_mcp_def Let_def
      split: prod.splits)

lemma post_mcp_registered:
  "sessionStates (mcp_world be req clk c w) (sessionIdentifier (mcp_instance be req clk c w)) =
     Some (sessionRef (mcp_instance be req clk c w))"
  by (simp add: post_mcp_parts call_tool_sessionStates createServerInstance_parts
      getSessionState_registers)

lemma post_mcp_resolve_sets_flag:
  "resolveLibraryIdCalled
     (objects (mcp_world be req clk (ResolveCall n) w)
        (sessionRef (mcp_instance be req clk (ResolveCall n) w)))"
  by (simp add: post_mcp_parts call_tool_def resolve_handler_session)

lemma post_mcp_docs_rejected:
  "\<not> resolveLibraryIdCalled
       (objects (snd (createServerInstance (getClientIp req) w))
          (sessionRef (fst (createServerInstance (getClientIp req) w)))) \<Longrightarrow>
   \<not> startsWith_slash lib \<Longrightarrow>
   mcp_result be req clk (DocsCall lib tk tp) w = text_result SEQUENCING_GUIDANCE"
  by (simp add: post_mcp_parts call_tool_def docs_handler_rejected)

lemma proxied_request_ip: "getClientIp proxied_request = Some ''10.0.0.7''"
  by (simp add: getClientIp_def proxied_request_def trim_def js_whitespace_def)

lemma client_request_ip: "getClientIp client_request = Some ''10.0.0.7''"
  by (simp add: getClientIp_def client_request_def)

lemma getSessionState_keeps:
  "sessionStates w k = Some r \<Longrightarrow> sessionStates (snd (getSessionState k' w)) k = Some r"
  "refs_bounded w \<Longrightarrow> refs_bounded (snd (getSessionState k' w))"
  "r < nextRef w \<Longrightarrow> objects (snd (getSessionState k' w)) r = objects w r"
  "r < nextRef w \<Longrightarrow> r < nextRef (snd (getSessionState k' w))"
  by (auto simp add: getSessionState_def refs_bounded_def less_Suc_eq split: option.splits)

lemma call_tool_nextRef:
  "nextRef (snd (call_tool be inst clk c w)) = nextRef w"
proof (cases c)
  case (ResolveCall n)
  then show ?thesis
    by (simp add: call_tool_def resolve_library_id_handler_def resolve_after_search_def
        resolve_before_search_def logToolCall_fields update_session_fields)
next
  case (DocsCall lib tk tp)
  show ?thesis
  proof (cases "resolveLibraryIdCalled (objects w (sessionRef inst)) \<or> startsWith_slash lib")
    case True
    then show ?thesis
      using DocsCall
      by (simp add: call_tool_def docs_handler_admitted docs_before_fetch_admitted
          docs_after_fetch_def logToolCall_fields update_session_fields)
  next
    case False
    then show ?thesis
      using DocsCall by (simp add: call_tool_def docs_handler_rejected)
  qed
qed

lemma call_tool_keeps_flag:
  assumes "resolveLibraryIdCalled (objects w r)"
  shows "resolveLibraryIdCalled (objects (snd (call_tool be inst clk c w)) r)"
proof (cases c)
  case (ResolveCall n)
  with assms show ?thesis
    by (simp add: call_tool_def resolve_library_id_handler_def resolve_after_search_objects
        resolve_before_search_def logToolCall_fields update_session_def)
next
  case (DocsCall lib tk tp)
  show ?thesis
  proof (cases "resolveLibraryIdCalled (objects w (sessionRef inst)) \<or> startsWith_slash lib")
    case True
    with assms show ?thesis
      using DocsCall
      by (auto simp add: call_tool_def docs_handler_admitted docs_after_fetch_objects
          docs_before_fetch_admitted logToolCall_fields update_session_def)
  next
    case False
    with assms show ?thesis
      using DocsCall by (simp add: call_tool_def docs_handler_rejected)
  qed
qed

lemma watchdog_tick_keeps:
  "sessionStates (watchdog_tick inst now w) = sessionStates w"
  "nextRef (watchdog_tick inst now w) = nextRef w"
  by (simp_all add: watchdog_tick_def Let_def update_session_def)

lemma watchdog_tick_keeps_flag:
  "resolveLibraryIdCalled (objects w r) \<Longrightarrow>
   \<not> (sessionRef inst = r \<and> pending_expired (objects w r) now) \<Longrightarrow>
   resolveLibraryIdCalled (objects (watchdog_tick inst now w) r)"
  by (auto simp add: watchdog_tick_def pending_expired_def Let_def update_session_def)

lemma mcp_world_keeps:
  "sessionStates w k = Some r \<Longrightarrow> sessionStates (mcp_world be req clk c w) k = Some r"
  "refs_bounded w \<Longrightarrow> refs_bounded (mcp_world be req clk c w)"
  "r < nextRef w \<Longrightarrow> r < nextRef (mcp_world be req clk c w)"
proof -
  let ?w1 = "snd (createServerInstance (getClientIp req) w)"
  let ?i1 = "fst (createServerInstance (getClientIp req) w)"
  have w: "mcp_world be req clk c w = snd (call_tool be ?i1 clk c ?w1)"
    by (rule post_mcp_parts(2))
  have c: "?w1 = snd (getSessionState (identifier_of (getClientIp req)) w)"
    by (rule createServerInstance_parts(2))
  show "sessionStates w k = Some r \<Longrightarrow> sessionStates (mcp_world be req clk c w) k = Some r"
    by (simp add: w call_tool_sessionStates c getSessionState_keeps(1))
  show "r < nextRef w \<Longrightarrow> r < nextRef (mcp_world be req clk c w)"
    by (simp add: w call_tool_nextRef c getSessionState_keeps(4))
  assume "refs_bounded w"
  then have "refs_bounded ?w1"
    unfolding c by (rule getSessionState_keeps(2))
  then show "refs_bounded (mcp_world be req clk c w)"
    by (simp add: refs_bounded_def w call_tool_sessionStates call_tool_nextRef)
qed

lemma mcp_world_keeps_flag:
  "r < nextRef w \<Longrightarrow> resolveLibraryIdCalled (objects w r) \<Longrightarrow>
   resolveLibraryIdCalled (objects (mcp_world be req clk c w) r)"
  by (simp add: post_mcp_parts call_tool_keeps_flag createServerInstance_parts
      getSessionState_keeps)

lemma http_step_keeps_mapping:
  "sessionStates (fst st) k = Some r \<Longrightarrow> sessionStates (fst (http_step e st)) k = Some r"
proof (cases st)
  case (Pair w insts)
  assume "sessionStates (fst st) k = Some r"
  with Pair show ?thesis
    by (cases e) (simp_all add: mcp_world_keeps(1) watchdog_tick_keeps(1))
qed

lemma http_step_keeps_bound:
  "refs_bounded (fst st) \<Longrightarrow> refs_bounded (fst (http_step e st))"
proof (cases st)
  case (Pair w insts)
  assume "refs_bounded (fst st)"
  with Pair show ?thesis
    by (cases e) (simp_all add: mcp_world_keeps(2), simp add: refs_bounded_def watchdog_tick_keeps)
qed

lemma http_step_keeps_flag:
  assumes "r < nextRef (fst st)" and "resolveLibraryIdCalled (objects (fst st) r)"
    and "\<not> resets r e st"
  shows "r < nextRef (fst (http_step e st)) \<and>
         resolveLibraryIdCalled (objects (fst (http_step e st)) r)"
proof (cases st)
  case (Pair w insts)
  show ?thesis
  proof (cases e)
    case (PostMcp be req clk c)
    with Pair assms show ?thesis
      by (simp add: mcp_world_keeps mcp_world_keeps_flag)
  next
    case (WatchdogTick k now)
    with Pair assms show ?thesis
      by (simp add: watchdog_tick_keeps watchdog_tick_keeps_flag)
  qed
qed

lemma http_run_keeps_mapping:
  "sessionStates (fst st) k = Some r \<Longrightarrow> sessionStates (fst (http_run es st)) k = Some r"
  by (induction es arbitrary: st) (simp_all add: http_step_keeps_mapping)

lemma http_run_keeps_bound:
  "refs_bounded (fst st) \<Longrightarrow> refs_bounded (fst (http_run es st))"
  by (induction es arbitrary: st) (simp_all add: http_step_keeps_bound)

lemma http_run_keeps_flag:
  "r < nextRef (fst st) \<Longrightarrow> resolveLibraryIdCalled (objects (fst st) r) \<Longrightarrow>
   no_reset r es st \<Longrightarrow>
   resolveLibraryIdCalled (objects (fst (http_run es st)) r)"
proof (induction es arbitrary: st)
  case Nil
  then show ?case by simp
next
  case (Cons e es)
  from Cons.prems have "\<not> resets r e st" and rest: "no_reset r es (http_step e st)"
    by simp_all
  with Cons.prems(1,2) have "r < nextRef (fst (http_step e st)) \<and>
         resolveLibraryIdCalled (objects (fst (http_step e st)) r)"
    by (intro http_step_keeps_flag)
  with Cons.IH [of "http_step e st"] rest show ?case by simp
qed

lemma refs_bounded_initial: "refs_bounded (fst (initial_world, insts))"
  by (simp add: refs_bounded_def initial_world_def)

lemma createServerInstance_known_key:
  "sessionStates w (identifier_of ip) = Some r \<Longrightarrow>
   createServerInstance ip w =
     (\<lparr>sessionIdentifier = identifier_of ip, sessionRef = r, instClientIp = ip\<rparr>, w)"
  by (simp add: createServerInstance_eq getSessionState_present)

lemma first_instance_eq:
  "first_instance =
     \<lparr>sessionIdentifier = ''10.0.0.7'', sessionRef = 0, instClientIp = Some ''10.0.0.7''\<rparr>"
  by (simp add: first_instance_def post_mcp_parts createServerInstance_parts client_request_ip
      identifier_of_def getSessionState_def initial_world_def)

lemma after_first_session:
  "objects after_first 0 =
     \<lparr>resolveLibraryIdCalled = True, getLibraryDocsCalled = False,
      lastResolveLibraryIdTime = Some 1000, sessionId = None\<rparr>"
proof -
  let ?w0 = "snd (createServerInstance (getClientIp client_request) initial_world)"
  have i: "fst (createServerInstance (getClientIp client_request) initial_world) =
             first_instance"
    by (simp add: first_instance_def post_mcp_parts)
  have r: "sessionRef first_instance = 0"
    by (simp add: first_instance_eq)
  have o: "objects ?w0 0 = fresh_session"
    by (simp add: createServerInstance_parts getSessionState_def initial_world_def)
  have "objects after_first (sessionRef first_instance) =
          (objects ?w0 (sessionRef first_instance))
            \<lparr>resolveLibraryIdCalled := True, getLibraryDocsCalled := False,
             lastResolveLibraryIdTime := Some (now_ms clock0)\<rparr>"
    unfolding after_first_def post_mcp_parts(2) i
    by (simp add: call_tool_def resolve_handler_session)
  then show ?thesis
    by (simp add: r o fresh_session_def clock0_def)
qed

lemma after_first_key: "sessionStates after_first ''10.0.0.7'' = Some 0"
  using post_mcp_registered
          [of full_backend client_request clock0 "ResolveCall ''react''" initial_world]
  by (simp add: first_instance_def [symmetric] after_first_def [symmetric] first_instance_eq)

lemma after_three_ticks_eq:
  "after_three_ticks = watchdog_tick first_instance 91000 after_first"
proof -
  have "watchdog_tick first_instance 31000 after_first = after_first"
    and "watchdog_tick first_instance 61000 after_first = after_first"
    by (simp_all add: watchdog_tick_def Let_def first_instance_eq after_first_session
        T_expire_def)
  then show ?thesis
    by (simp add: after_three_ticks_def three_ticks_def)
qed

text \<open>
  C3, as stated, fails when the later request comes after the watchdog has expired the
  session. A client calls \<open>resolve-library-id\<close> in a first \<open>POST /mcp\<close> at clock
  reading 1000, which sets the flag on its session object; the interval of that request's
  server instance fires at 31000, 61000 and 91000, and the third firing resets the
  session; the same client's second \<open>POST /mcp\<close> at 95000, \<open>get-library-docs\<close> with
  the id \<open>react\<close>, resolves to the same session object, still under its key, finds the
  flag false and gets the sequencing guidance.
\<close>

theorem session_reset_between_requests:
  "resolveLibraryIdCalled (objects after_first (sessionRef first_instance)) \<and>
   sessionStates after_three_ticks ''10.0.0.7'' = Some (sessionRef first_instance) \<and>
   sessionRef (mcp_instance full_backend client_request clock1 (DocsCall ''react'' None None)
     after_three_ticks) = sessionRef first_instance \<and>
   \<not> resolveLibraryIdCalled (objects after_three_ticks (sessionRef first_instance)) \<and>
   mcp_result full_backend client_request clock1 (DocsCall ''react'' None None)
     after_three_ticks = text_result SEQUENCING_GUIDANCE"
proof -
  let ?c = "DocsCall ''react'' None None"
  have r: "sessionRef first_instance = 0"
    by (simp add: first_instance_eq)
  have a: "resolveLibraryIdCalled (objects after_first (sessionRef first_instance))"
    by (simp add: r after_first_session)
  have k: "sessionStates after_three_ticks ''10.0.0.7'' = Some 0"
    by (simp add: after_three_ticks_eq watchdog_tick_keeps after_first_key)
  have o: "\<not> resolveLibraryIdCalled (objects after_three_ticks 0)"
    by (simp add: after_three_ticks_eq watchdog_tick_def Let_def first_instance_eq
        after_first_session T_expire_def update_session_def)
  have id: "identifier_of (getClientIp client_request) = ''10.0.0.7''"
    by (simp add: client_request_ip identifier_of_def)
  have cs: "createServerInstance (getClientIp client_request) after_three_ticks =
              (\<lparr>sessionIdentifier = ''10.0.0.7'', sessionRef = 0,
                instClientIp = getClientIp client_request\<rparr>, after_three_ticks)"
    using createServerInstance_known_key [of after_three_ticks "getClientIp client_request" 0]
      k id by simp
  have b: "sessionRef (mcp_instance full_backend client_request clock1 ?c after_three_ticks) = 0"
    by (simp add: post_mcp_parts(1) cs)
  have ns: "\<not> startsWith_slash ''react''"
    by (simp add: startsWith_slash_def)
  have "\<not> resolveLibraryIdCalled
       (objects (snd (createServerInstance (getClientIp client_request) after_three_ticks))
          (sessionRef (fst (createServerInstance (getClientIp client_request)
             after_three_ticks))))"
    using o by (simp add: cs)
  then have d: "mcp_result full_backend client_request clock1 ?c after_three_ticks =
                  text_result SEQUENCING_GUIDANCE"
    using ns by (rule post_mcp_docs_rejected)
  from a k b o d show ?thesis
    by (simp add: r)
qed

text \<open>
  C3, amended. Each \<open>POST /mcp\<close> builds a new server instance, and in every run of
  \<open>POST /mcp\<close> requests and watchdog firings since the server started, a request
  whose derived client key equals that of an earlier request resolves to the session
  object of the earlier one, and building its instance leaves the whole state as it was:
  the instance and the transport of the earlier request served that request only, the
  session outlives them. So after an earlier
  request that called \<open>resolve-library-id\<close>, and whatever requests of any client and
  firings of any interval came in between, the later request finds
  \<open>resolveLibraryIdCalled = true\<close> and its \<open>get-library-docs\<close> call reaches the fetch
  and returns what the handler makes of the fetch result, provided no firing in between
  found that session pending for more than \<open>T_expire\<close> and reset it.
\<close>

theorem session_shared_across_requests:
  fixes es0 es :: "'r http_event list" and be1 be2 :: "'r backend"
    and req1 req2 :: http_request and clk1 clk2 :: clock and n lib :: string
    and tk :: "jsnumber option" and tp :: "string option"
  assumes key: "identifier_of (getClientIp req2) = identifier_of (getClientIp req1)"
  defines "st0 \<equiv> http_run es0 (initial_world, [])"
  defines "inst1 \<equiv> mcp_instance be1 req1 clk1 (ResolveCall n) (fst st0)"
  defines "st1 \<equiv> http_step (PostMcp be1 req1 clk1 (ResolveCall n)) st0"
  defines "w2 \<equiv> fst (http_run es st1)"
  defines "inst2 \<equiv> mcp_instance be2 req2 clk2 (DocsCall lib tk tp) w2"
  shows
  "sessionRef inst2 = sessionRef inst1 \<and>
   sessionIdentifier inst2 = sessionIdentifier inst1 \<and>
   snd (createServerInstance (getClientIp req2) w2) = w2 \<and>
   resolveLibraryIdCalled (objects (fst st1) (sessionRef inst1)) \<and>
   (no_reset (sessionRef inst1) es st1 \<longrightarrow>
      resolveLibraryIdCalled (objects w2 (sessionRef inst2)) \<and>
      fst (docs_before_fetch inst2 clk2 lib tk tp w2) =
        AwaitFetch lib (tokens_or_default tk) (topic_or_default tp) (getClientIp req2) \<and>
      mcp_result be2 req2 clk2 (DocsCall lib tk tp) w2 =
        fst (docs_after_fetch inst2 clk2 lib (topic_or_default tp)
               (fetchLibraryDocumentation be2 lib (tokens_or_default tk) (topic_or_default tp)
                  (getClientIp req2))
               (snd (docs_before_fetch inst2 clk2 lib tk tp w2))))"
proof -
  let ?k = "identifier_of (getClientIp req1)"
  let ?r = "sessionRef inst1"
  obtain w0 insts0 where st0: "st0 = (w0, insts0)"
    by (cases st0)
  have w1: "fst st1 = mcp_world be1 req1 clk1 (ResolveCall n) w0"
    and i1: "inst1 = mcp_instance be1 req1 clk1 (ResolveCall n) w0"
    by (simp_all add: st1_def inst1_def st0)
  have ident1: "sessionIdentifier inst1 = ?k"
    by (simp add: i1 post_mcp_parts(1) createServerInstance_parts)
  have reg: "sessionStates (fst st1) ?k = Some ?r"
    using post_mcp_registered [of be1 req1 clk1 "ResolveCall n" w0]
    by (simp add: w1 i1 [symmetric] ident1)
  have "refs_bounded (fst st0)"
    unfolding st0_def using refs_bounded_initial by (rule http_run_keeps_bound)
  then have "refs_bounded (fst st1)"
    unfolding st1_def by (rule http_step_keeps_bound)
  with reg have bound: "?r < nextRef (fst st1)"
    by (simp add: refs_bounded_def)
  have flag1: "resolveLibraryIdCalled (objects (fst st1) ?r)"
    unfolding w1 i1 by (rule post_mcp_resolve_sets_flag)
  have "sessionStates w2 ?k = Some ?r"
    unfolding w2_def using reg by (rule http_run_keeps_mapping)
  then have "sessionStates w2 (identifier_of (getClientIp req2)) = Some ?r"
    by (simp add: key)
  then have cs: "createServerInstance (getClientIp req2) w2 =
                   (\<lparr>sessionIdentifier = identifier_of (getClientIp req2), sessionRef = ?r,
                     instClientIp = getClientIp req2\<rparr>, w2)"
    by (rule createServerInstance_known_key)
  have i2: "inst2 = \<lparr>sessionIdentifier = identifier_of (getClientIp req2), sessionRef = ?r,
                     instClientIp = getClientIp req2\<rparr>"
    by (simp add: inst2_def post_mcp_parts(1) cs)
  have same_ref: "sessionRef inst2 = ?r"
    and same_id: "sessionIdentifier inst2 = sessionIdentifier inst1"
    and ip2: "instClientIp inst2 = getClientIp req2"
    by (simp_all add: i2 ident1 key)
  have unchanged: "snd (createServerInstance (getClientIp req2) w2) = w2"
    by (simp add: cs)
  have later: "no_reset ?r es st1 \<longrightarrow>
      resolveLibraryIdCalled (objects w2 (sessionRef inst2)) \<and>
      fst (docs_before_fetch inst2 clk2 lib tk tp w2) =
        AwaitFetch lib (tokens_or_default tk) (topic_or_default tp) (getClientIp req2) \<and>
      mcp_result be2 req2 clk2 (DocsCall lib tk tp) w2 =
        fst (docs_after_fetch inst2 clk2 lib (topic_or_default tp)
               (fetchLibraryDocumentation be2 lib (tokens_or_default tk) (topic_or_default tp)
                  (getClientIp req2))
               (snd (docs_before_fetch inst2 clk2 lib tk tp w2)))"
  proof
    assume quiet: "no_reset ?r es st1"
    have "resolveLibraryIdCalled (objects w2 ?r)"
      unfolding w2_def using bound flag1 quiet by (rule http_run_keeps_flag)
    then have flag2: "resolveLibraryIdCalled (objects w2 (sessionRef inst2))"
      by (simp add: same_ref)
    then have adm: "resolveLibraryIdCalled (objects w2 (sessionRef inst2)) \<or>
                    startsWith_slash lib"
      by simp
    have step: "fst (docs_before_fetch inst2 clk2 lib tk tp w2) =
                  AwaitFetch lib (tokens_or_default tk) (topic_or_default tp)
                    (getClientIp req2)"
      using adm by (simp add: docs_before_fetch_admitted ip2)
    have "mcp_result be2 req2 clk2 (DocsCall lib tk tp) w2 =
            fst (get_library_docs_handler be2 inst2 clk2 lib tk tp w2)"
      by (simp add: post_mcp_parts(3) cs call_tool_def i2)
    also have "\<dots> = fst (docs_after_fetch inst2 clk2 lib (topic_or_default tp)
               (fetchLibraryDocumentation be2 lib (tokens_or_default tk) (topic_or_default tp)
                  (getClientIp req2))
               (snd (docs_before_fetch inst2 clk2 lib tk tp w2)))"
      using adm by (simp add: docs_handler_admitted ip2)
    finally show "resolveLibraryIdCalled (objects w2 (sessionRef inst2)) \<and>
      fst (docs_before_fetch inst2 clk2 lib tk tp w2) =
        AwaitFetch lib (tokens_or_default tk) (topic_or_default tp) (getClientIp req2) \<and>
      mcp_result be2 req2 clk2 (DocsCall lib tk tp) w2 =
        fst (docs_after_fetch inst2 clk2 lib (topic_or_default tp)
               (fetchLibraryDocumentation be2 lib (tokens_or_default tk) (topic_or_default tp)
                  (getClientIp req2))
               (snd (docs_before_fetch inst2 clk2 lib tk tp w2)))"
      using flag2 step by simp
  qed
  from same_ref same_id unchanged flag1 later show ?thesis
    by blast
qed

theorem session_shared_across_requests_witness:
  "identifier_of (getClientIp proxied_request) = identifier_of (getClientIp client_request) \<and>
   no_reset (sessionRef first_instance) quiet_events (after_first, [first_instance]) \<and>
   sessionRef (mcp_instance full_backend proxied_request clock1 (DocsCall ''react'' None None)
     (fst (http_run quiet_events (after_first, [first_instance])))) =
     sessionRef first_instance \<and>
   resolveLibraryIdCalled
     (objects (fst (http_run quiet_events (after_first, [first_instance])))
        (sessionRef first_instance)) \<and>
   mcp_result full_backend proxied_request clock1 (DocsCall ''react'' None None)
     (fst (http_run quiet_events (after_first, [first_instance]))) = text_result ''docs''"
proof -
  let ?c = "DocsCall ''react'' None None"
  let ?st1 = "(after_first, [first_instance])"
  let ?w2 = "fst (http_run quiet_events ?st1)"
  let ?i2 = "mcp_instance full_backend proxied_request clock1 ?c ?w2"
  have key: "identifier_of (getClientIp proxied_request) =
             identifier_of (getClientIp client_request)"
    by (simp add: proxied_request_ip client_request_ip)
  have st0: "http_run [] (initial_world, []) = (initial_world, [])"
    by simp
  have st1: "http_step (PostMcp full_backend client_request clock0 (ResolveCall ''react''))
               (initial_world, []) = ?st1"
    by (simp add: after_first_def first_instance_def)
  have fi: "mcp_instance full_backend client_request clock0 (ResolveCall ''react'')
              initial_world = first_instance"
    by (simp add: first_instance_def)
  have quiet: "no_reset (sessionRef first_instance) quiet_events ?st1"
    by (simp add: quiet_events_def pending_expired_def first_instance_eq after_first_session
        T_expire_def)
  note t0 = session_shared_across_requests
              [OF key, where ?es0.0 = "[]" and es = quiet_events and ?be1.0 = full_backend
                and ?be2.0 = full_backend and ?clk1.0 = clock0 and ?clk2.0 = clock1
                and n = "''react''" and lib = "''react''" and tk = None and tp = None]
  note t = t0 [unfolded st0 fst_conv st1 fi]
  from t have a: "sessionRef ?i2 = sessionRef first_instance"
    by blast
  from t quiet have b: "resolveLibraryIdCalled (objects ?w2 (sessionRef ?i2))"
    by blast
  from t quiet have c: "mcp_result full_backend proxied_request clock1 ?c ?w2 =
        fst (docs_after_fetch ?i2 clock1 ''react'' (topic_or_default None)
               (fetchLibraryDocumentation full_backend ''react'' (tokens_or_default None)
                  (topic_or_default None) (getClientIp proxied_request))
               (snd (docs_before_fetch ?i2 clock1 ''react'' None None ?w2)))"
    by blast
  have d: "mcp_result full_backend proxied_request clock1 ?c ?w2 = text_result ''docs''"
    unfolding c by (simp add: docs_after_fetch_def falsy_docs_def full_backend_def)
  from key quiet a b d show ?thesis
    by simp
qed

section \<open>Port fallback\<close>

declare startServer.simps [simp del]

lemma startServer_listening:
  "listen port = Listening \<Longrightarrow>
   startServer listen initialPort port maxAttempts = ([port], Running port)"
  by (subst startServer.simps) simp

lemma startServer_fatal:
  "listen port = ListenError code \<Longrightarrow>
   code \<noteq> Some ''EADDRINUSE'' \<or> \<not> port < initialPort + maxAttempts \<Longrightarrow>
   startServer listen initialPort port maxAttempts = ([port], Exit 1)"
  by (subst startServer.simps) auto

lemma startServer_retry:
  "listen port = ListenError (Some ''EADDRINUSE'') \<Longrightarrow> port < initialPort + maxAttempts \<Longrightarrow>
   startServer listen initialPort port maxAttempts =
     (port # fst (startServer listen initialPort (port + 1) maxAttempts),
      snd (startServer listen initialPort (port + 1) maxAttempts))"
  by (subst startServer.simps) (simp add: split_beta)

lemma startServer_skips_taken_ports:
  assumes "\<forall>q. port \<le> q \<and> q < p \<longrightarrow> listen q = ListenError (Some ''EADDRINUSE'')"
    and "port \<le> p" and "p \<le> initialPort + maxAttempts"
  shows "startServer listen initialPort port maxAttempts =
           ([port..p - 1] @ fst (startServer listen initialPort p maxAttempts),
            snd (startServer listen initialPort p maxAttempts))"
  using assms
proof (induction "nat (p - port)" arbitrary: port)
  case 0
  then have "port = p" by simp
  then show ?case by simp
next
  case (Suc k)
  then have lt: "port < p" by linarith
  with Suc.prems have taken: "listen port = ListenError (Some ''EADDRINUSE'')"
    and room: "port < initialPort + maxAttempts"
    by simp_all
  have k: "k = nat (p - (port + 1))"
    using Suc.hyps(2) by linarith
  have rest: "\<forall>q. port + 1 \<le> q \<and> q < p \<longrightarrow> listen q = ListenError (Some ''EADDRINUSE'')"
    using Suc.prems(1) by simp
  have le: "port + 1 \<le> p"
    using lt by simp
  have ih: "startServer listen initialPort (port + 1) maxAttempts =
              ([port + 1..p - 1] @ fst (startServer listen initialPort p maxAttempts),
               snd (startServer listen initialPort p maxAttempts))"
    using Suc.hyps(1) [OF k rest le Suc.prems(3)] .
  have up: "[port..p - 1] = port # [port + 1..p - 1]"
    using lt by (simp add: upto_rec1)
  have "startServer listen initialPort port maxAttempts =
          (port # fst (startServer listen initialPort (port + 1) maxAttempts),
           snd (startServer listen initialPort (port + 1) maxAttempts))"
    using taken room by (rule startServer_retry)
  then show ?case
    by (simp add: ih up)
qed

text \<open>
  C7. \<open>startServer\<close> calls \<open>listen\<close> on the initial port and, while the answer is
  \<open>EADDRINUSE\<close>, on the next higher port, for at most 10 retries. When the ports
  below some port \<open>p\<close> of that range are in use and \<open>p\<close> is free, the ports tried are
  exactly \<open>initialPort\<close> up to \<open>p\<close>, and the server runs on \<open>p\<close>. When the first port
  that is not in use fails for another reason, or when every port up to
  \<open>initialPort + 10\<close> is in use, the process exits with status 1.
\<close>

theorem port_fallback:
  "(initial_port cli \<le> p \<and> p \<le> initial_port cli + 10 \<and>
    (\<forall>q. initial_port cli \<le> q \<and> q < p \<longrightarrow> listen q = ListenError (Some ''EADDRINUSE'')) \<and>
    listen p = Listening \<longrightarrow>
      start_http listen cli = ([initial_port cli..p], Running p)) \<and>
   (initial_port cli \<le> p \<and> p \<le> initial_port cli + 10 \<and>
    (\<forall>q. initial_port cli \<le> q \<and> q < p \<longrightarrow> listen q = ListenError (Some ''EADDRINUSE'')) \<and>
    listen p = ListenError code \<and> code \<noteq> Some ''EADDRINUSE'' \<longrightarrow>
      start_http listen cli = ([initial_port cli..p], Exit 1)) \<and>
   ((\<forall>q. initial_port cli \<le> q \<and> q \<le> initial_port cli + 10 \<longrightarrow>
        listen q = ListenError (Some ''EADDRINUSE'')) \<longrightarrow>
      start_http listen cli = ([initial_port cli..initial_port cli + 10], Exit 1))"
proof (intro conjI impI)
  assume h: "initial_port cli \<le> p \<and> p \<le> initial_port cli + 10 \<and>
    (\<forall>q. initial_port cli \<le> q \<and> q < p \<longrightarrow> listen q = ListenError (Some ''EADDRINUSE'')) \<and>
    listen p = Listening"
  then have "startServer listen (initial_port cli) (initial_port cli) 10 =
               ([initial_port cli..p - 1] @
                  fst (startServer listen (initial_port cli) p 10),
                snd (startServer listen (initial_port cli) p 10))"
    by (intro startServer_skips_taken_ports) simp_all
  moreover have "[initial_port cli..p - 1] @ [p] = [initial_port cli..p]"
    using h by (simp add: upto_rec2)
  ultimately show "start_http listen cli = ([initial_port cli..p], Running p)"
    using h by (simp add: start_http_def startServer_listening)
next
  assume h: "initial_port cli \<le> p \<and> p \<le> initial_port cli + 10 \<and>
    (\<forall>q. initial_port cli \<le> q \<and> q < p \<longrightarrow> listen q = ListenError (Some ''EADDRINUSE'')) \<and>
    listen p = ListenError code \<and> code \<noteq> Some ''EADDRINUSE''"
  then have "startServer listen (initial_port cli) (initial_port cli) 10 =
               ([initial_port cli..p - 1] @
                  fst (startServer listen (initial_port cli) p 10),
                snd (startServer listen (initial_port cli) p 10))"
    by (intro startServer_skips_taken_ports) simp_all
  moreover have "[initial_port cli..p - 1] @ [p] = [initial_port cli..p]"
    using h by (simp add: upto_rec2)
  moreover have "startServer listen (initial_port cli) p 10 = ([p], Exit 1)"
    using h by (intro startServer_fatal [of listen p code]) simp_all
  ultimately show "start_http listen cli = ([initial_port cli..p], Exit 1)"
    by (simp add: start_http_def)
next
  let ?last = "initial_port cli + 10"
  assume h: "\<forall>q. initial_port cli \<le> q \<and> q \<le> initial_port cli + 10 \<longrightarrow>
        listen q = ListenError (Some ''EADDRINUSE'')"
  then have "startServer listen (initial_port cli) (initial_port cli) 10 =
               ([initial_port cli..?last - 1] @
                  fst (startServer listen (initial_port cli) ?last 10),
                snd (startServer listen (initial_port cli) ?last 10))"
    by (intro startServer_skips_taken_ports) simp_all
  moreover have "[initial_port cli..?last - 1] @ [?last] = [initial_port cli..?last]"
    by (simp add: upto_rec2)
  moreover have "startServer listen (initial_port cli) ?last 10 = ([?last], Exit 1)"
    using h by (intro startServer_fatal [of listen ?last "Some ''EADDRINUSE''"]) simp_all
  ultimately show "start_http listen cli = ([initial_port cli..?last], Exit 1)"
    by (simp add: start_http_def)
qed

theorem port_fallback_witness:
  "two_ports_taken 3002 = Listening \<and>
   start_http two_ports_taken None = ([3000, 3001, 3002], Running 3002) \<and>
   permission_denied 80 = ListenError (Some ''EACCES'') \<and>
   start_http permission_denied (Some 80) = ([80], Exit 1) \<and>
   start_http all_ports_taken None =
     ([3000, 3001, 3002, 3003, 3004, 3005, 3006, 3007, 3008, 3009, 3010], Exit 1)"
proof -
  have a: "initial_port None \<le> 3002 \<and> 3002 \<le> initial_port None + 10 \<and>
           (\<forall>q. initial_port None \<le> q \<and> q < 3002 \<longrightarrow>
                two_ports_taken q = ListenError (Some ''EADDRINUSE'')) \<and>
           two_ports_taken 3002 = Listening"
    by (simp add: initial_port_def two_ports_taken_def)
  have b: "initial_port (Some 80) \<le> 80 \<and> 80 \<le> initial_port (Some 80) + 10 \<and>
           (\<forall>q. initial_port (Some 80) \<le> q \<and> q < 80 \<longrightarrow>
                permission_denied q = ListenError (Some ''EADDRINUSE'')) \<and>
           permission_denied 80 = ListenError (Some ''EACCES'') \<and>
           Some ''EACCES'' \<noteq> Some ''EADDRINUSE''"
    by (simp add: initial_port_def permission_denied_def)
  have c: "\<forall>q. initial_port None \<le> q \<and> q \<le> initial_port None + 10 \<longrightarrow>
             all_ports_taken q = ListenError (Some ''EADDRINUSE'')"
    by (simp add: all_ports_taken_def)
  have u1: "[initial_port None..3002] = [3000, 3001, 3002]"
    by (simp add: initial_port_def upto_rec1)
  have u2: "[initial_port (Some 80)..80] = [80]"
    by (simp add: initial_port_def)
  have u3: "[initial_port None..initial_port None + 10] =
              [3000, 3001, 3002, 3003, 3004, 3005, 3006, 3007, 3008, 3009, 3010]"
    by (simp add: initial_port_def upto_rec1)
  from a port_fallback [of None 3002 two_ports_taken]
  have d: "start_http two_ports_taken None = ([3000, 3001, 3002], Running 3002)"
    unfolding u1 by blast
  from b port_fallback [of "Some 80" 80 permission_denied "Some ''EACCES''"]
  have e: "start_http permission_denied (Some 80) = ([80], Exit 1)"
    unfolding u2 by blast
  from c port_fallback [of None _ all_ports_taken]
  have f: "start_http all_ports_taken None =
             ([3000, 3001, 3002, 3003, 3004, 3005, 3006, 3007, 3008, 3009, 3010], Exit 1)"
    unfolding u3 by blast
  from a b d e f show ?thesis by simp
qed

end
